theory Spec2Isabelle
  imports Complex_Main
begin

section \<open>JavaScript numbers\<close>

text \<open>
  A JavaScript Number is an IEEE 754 binary64 value. It is modelled as a finite real
  (always one that binary64 represents), the two infinities, or NaN. Every arithmetic
  operation computes the exact result and rounds it to the nearest binary64 value, ties
  to even (\<open>round64\<close>), as the language prescribes. The two zeros are identified:
  the program never divides by a computed zero and never tells them apart.
\<close>

datatype num = Fin real | PInf | NInf | NaN

text \<open>\<open>ilog_up r\<close> counts the halvings that bring \<open>r \<ge> 1\<close> below 2, and
  \<open>ilog_down r\<close> (negated) the doublings that bring \<open>0 < r < 1\<close> up to 1: together
  they give the binary exponent \<open>\<lfloor>log\<^sub>2 r\<rfloor>\<close>.\<close>

function ilog_up :: "real \<Rightarrow> int" where
  "ilog_up r = (if 2 \<le> r then 1 + ilog_up (r / 2) else 0)"
  by pat_completeness auto
termination
proof (relation "measure (\<lambda>r. nat \<lfloor>r\<rfloor>)")
  show "wf (measure (\<lambda>r::real. nat \<lfloor>r\<rfloor>))" by simp
next
  fix r :: real
  assume a: "2 \<le> r"
  then have "r / 2 \<le> r - 1" by simp
  then have "\<lfloor>r / 2\<rfloor> \<le> \<lfloor>r - 1\<rfloor>" by (rule floor_mono)
  moreover have "0 < \<lfloor>r\<rfloor>" using a by (simp add: less_floor_iff)
  ultimately show "(r / 2, r) \<in> measure (\<lambda>r. nat \<lfloor>r\<rfloor>)" by simp
qed

function ilog_down :: "real \<Rightarrow> int" where
  "ilog_down r = (if 0 < r \<and> r < 1 then ilog_down (2 * r) - 1 else 0)"
  by pat_completeness auto
termination
proof (relation "measure (\<lambda>r. nat \<lfloor>1 / r\<rfloor>)")
  show "wf (measure (\<lambda>r::real. nat \<lfloor>1 / r\<rfloor>))" by simp
next
  fix r :: real
  assume a: "0 < r \<and> r < 1"
  define y where "y = 1 / r"
  have y1: "1 < y" using a by (simp add: y_def)
  have half: "1 / (2 * r) = y / 2" by (simp add: y_def)
  have "\<lfloor>y / 2\<rfloor> < \<lfloor>y\<rfloor>"
  proof (cases "y < 2")
    case True
    then have "\<lfloor>y / 2\<rfloor> = 0" using y1 by (simp add: floor_eq_iff)
    moreover have "1 \<le> \<lfloor>y\<rfloor>" using y1 by (simp add: le_floor_iff)
    ultimately show ?thesis by simp
  next
    case False
    then have "y / 2 \<le> y - 1" by simp
    then have "\<lfloor>y / 2\<rfloor> \<le> \<lfloor>y - 1\<rfloor>" by (rule floor_mono)
    then show ?thesis by simp
  qed
  moreover have "0 < \<lfloor>y\<rfloor>" using y1 by (simp add: less_floor_iff)
  ultimately show "(2 * r, r) \<in> measure (\<lambda>r. nat \<lfloor>1 / r\<rfloor>)"
    by (simp add: y_def mult.commute)
qed

declare ilog_up.simps [simp del] ilog_down.simps [simp del]

definition pow2 :: "int \<Rightarrow> real" where
  "pow2 e = (if 0 \<le> e then 2 ^ nat e else 1 / 2 ^ nat (- e))"

text \<open>The exponent of the binade of \<open>a > 0\<close>, not below that of the subnormals.\<close>

definition expo :: "real \<Rightarrow> int" where
  "expo a = max (if 1 \<le> a then ilog_up a else ilog_down a) (- 1022)"

definition ties_even :: "int \<Rightarrow> real \<Rightarrow> int" where
  "ties_even f d =
     (if d < 1 / 2 then f else if 1 / 2 < d then f + 1 else if even f then f else f + 1)"

definition round_even :: "real \<Rightarrow> int" where
  "round_even y = ties_even \<lfloor>y\<rfloor> (y - of_int \<lfloor>y\<rfloor>)"

text \<open>The multiple of the spacing \<open>q\<close> nearest to \<open>a\<close>.\<close>

definition quantize :: "real \<Rightarrow> real \<Rightarrow> real" where
  "quantize q a = of_int (round_even (a / q)) * q"

definition overflow :: "bool \<Rightarrow> real \<Rightarrow> num" where
  "overflow pos v =
     (if 2 ^ 1024 \<le> v then (if pos then PInf else NInf) else Fin (if pos then v else - v))"

text \<open>Rounding to binary64: 53 significant bits, spacing \<open>2\<^sup>e\<^sup>-\<^sup>5\<^sup>2\<close> in the binade of
  exponent \<open>e\<close>, spacing \<open>2\<^sup>-\<^sup>1\<^sup>0\<^sup>7\<^sup>4\<close> for subnormals, infinity from \<open>2\<^sup>1\<^sup>0\<^sup>2\<^sup>4\<close> on.\<close>

definition round64 :: "real \<Rightarrow> num" where
  "round64 r = (if r = 0 then Fin 0
     else overflow (0 < r) (quantize (pow2 (expo \<bar>r\<bar> - 52)) \<bar>r\<bar>))"

subsection \<open>Operators and \<open>Math\<close> functions\<close>

fun num_neg :: "num \<Rightarrow> num" where
  "num_neg (Fin a) = Fin (- a)"
| "num_neg PInf = NInf"
| "num_neg NInf = PInf"
| "num_neg NaN = NaN"

fun num_add :: "num \<Rightarrow> num \<Rightarrow> num" where
  "num_add (Fin a) (Fin b) = round64 (a + b)"
| "num_add NaN _ = NaN"
| "num_add _ NaN = NaN"
| "num_add PInf NInf = NaN"
| "num_add NInf PInf = NaN"
| "num_add PInf _ = PInf"
| "num_add _ PInf = PInf"
| "num_add NInf _ = NInf"
| "num_add _ NInf = NInf"

definition num_sub :: "num \<Rightarrow> num \<Rightarrow> num" where
  "num_sub a b = num_add a (num_neg b)"

fun num_mul :: "num \<Rightarrow> num \<Rightarrow> num" where
  "num_mul (Fin a) (Fin b) = round64 (a * b)"
| "num_mul NaN _ = NaN"
| "num_mul _ NaN = NaN"
| "num_mul PInf (Fin b) = (if b = 0 then NaN else if 0 < b then PInf else NInf)"
| "num_mul NInf (Fin b) = (if b = 0 then NaN else if 0 < b then NInf else PInf)"
| "num_mul (Fin a) PInf = (if a = 0 then NaN else if 0 < a then PInf else NInf)"
| "num_mul (Fin a) NInf = (if a = 0 then NaN else if 0 < a then NInf else PInf)"
| "num_mul PInf PInf = PInf"
| "num_mul PInf NInf = NInf"
| "num_mul NInf PInf = NInf"
| "num_mul NInf NInf = PInf"

fun num_div :: "num \<Rightarrow> num \<Rightarrow> num" where
  "num_div (Fin a) (Fin b) =
     (if b = 0 then (if a = 0 then NaN else if 0 < a then PInf else NInf)
      else round64 (a / b))"
| "num_div NaN _ = NaN"
| "num_div _ NaN = NaN"
| "num_div (Fin a) _ = Fin 0"
| "num_div PInf (Fin b) = (if 0 \<le> b then PInf else NInf)"
| "num_div NInf (Fin b) = (if 0 \<le> b then NInf else PInf)"
| "num_div _ _ = NaN"

text \<open>\<open>a < b\<close>; every comparison with NaN is false.\<close>

fun num_lt :: "num \<Rightarrow> num \<Rightarrow> bool" where
  "num_lt (Fin a) (Fin b) = (a < b)"
| "num_lt NaN _ = False"
| "num_lt _ NaN = False"
| "num_lt _ NInf = False"
| "num_lt PInf _ = False"
| "num_lt _ _ = True"

definition num_gt :: "num \<Rightarrow> num \<Rightarrow> bool" where
  "num_gt a b = num_lt b a"

text \<open>\<open>a <= b\<close> and \<open>a >= b\<close>.\<close>

definition num_le :: "num \<Rightarrow> num \<Rightarrow> bool" where
  "num_le a b = (a \<noteq> NaN \<and> b \<noteq> NaN \<and> \<not> num_lt b a)"

definition num_ge :: "num \<Rightarrow> num \<Rightarrow> bool" where
  "num_ge a b = num_le b a"

text \<open>Strict equality \<open>===\<close> of two numbers: NaN equals nothing.\<close>

definition num_eq :: "num \<Rightarrow> num \<Rightarrow> bool" where
  "num_eq a b = (a \<noteq> NaN \<and> a = b)"

text \<open>\<open>Math.abs\<close>, \<open>Math.min\<close> of two arguments, \<open>Math.floor\<close>.\<close>

fun num_abs :: "num \<Rightarrow> num" where
  "num_abs (Fin a) = Fin \<bar>a\<bar>"
| "num_abs NaN = NaN"
| "num_abs _ = PInf"

definition num_min :: "num \<Rightarrow> num \<Rightarrow> num" where
  "num_min a b = (if a = NaN \<or> b = NaN then NaN else if num_lt b a then b else a)"

fun num_floor :: "num \<Rightarrow> num" where
  "num_floor (Fin a) = Fin (of_int \<lfloor>a\<rfloor>)"
| "num_floor n = n"

text \<open>The truth value of a number in a condition: 0 and NaN are falsy.\<close>

definition truthy :: "num \<Rightarrow> bool" where
  "truthy a = (a \<noteq> Fin 0 \<and> a \<noteq> NaN)"

text \<open>\<open>Number.isNaN\<close> and \<open>Number.isFinite\<close>.\<close>

definition isNaN :: "num \<Rightarrow> bool" where
  "isNaN a = (a = NaN)"

fun isFinite :: "num \<Rightarrow> bool" where
  "isFinite (Fin a) = True"
| "isFinite a = False"

section \<open>Argument validation\<close>

datatype error = ValidationError string | TypeError string

text \<open>
  Modelled from the spec: \<open>validateArgument\<close> is imported from \<open>utilities.js\<close>, which
  is not among the sources. The spec (section 7) says that a value outside what the
  call allows raises an error at once; the options are those the call sites pass:
  \<open>allowedMin\<close>, \<open>allowedMax\<close> (absent: \<open>None\<close>) and \<open>allowFiniteNumbersOnly\<close>.
  The type \<open>num\<close> already makes the value a number, so \<open>allowedTypes: ["number"]\<close>
  always passes. A NaN lies in no range.
\<close>

definition validateArgument ::
  "string \<Rightarrow> num \<Rightarrow> num option \<Rightarrow> num option \<Rightarrow> bool \<Rightarrow> error option" where
  "validateArgument name v allowedMin allowedMax allowFiniteNumbersOnly =
     (if (case allowedMin of None \<Rightarrow> True | Some lo \<Rightarrow> num_le lo v)
       \<and> (case allowedMax of None \<Rightarrow> True | Some hi \<Rightarrow> num_le v hi)
       \<and> (allowFiniteNumbersOnly \<longrightarrow> isFinite v)
      then None else Some (ValidationError name))"

section \<open>CubicBezierSolver\<close>

text \<open>A decimal literal of the source denotes the binary64 value nearest to it.\<close>

definition lit :: "real \<Rightarrow> num" where
  "lit r = round64 r"

text \<open>The value given for the control points: a keyword, an array of numbers, or
  anything else (\<open>undefined\<close>, as the lookup of an unknown keyword returns).\<close>

datatype easing = Keyword string | Points "num list" | Undefined

definition easingKeywordMap :: "string \<Rightarrow> num list option" where
  "easingKeywordMap = [
     ''ease'' \<mapsto> [lit (25 / 100), lit (1 / 10), lit (25 / 100), Fin 1],
     ''ease-in'' \<mapsto> [lit (42 / 100), Fin 0, Fin 1, Fin 1],
     ''ease-out'' \<mapsto> [Fin 0, Fin 0, lit (58 / 100), Fin 1],
     ''ease-in-out'' \<mapsto> [lit (42 / 100), Fin 0, lit (58 / 100), Fin 1],
     ''linear'' \<mapsto> [Fin 0, Fin 0, Fin 1, Fin 1]]"

record solver =
  p1x :: num
  p1y :: num
  p2x :: num
  p2y :: num
  ax :: num
  bx :: num
  cx :: num
  ay :: num
  by' :: num
  cy :: num

text \<open>\<open>Number.MAX_SAFE_INTEGER\<close> is \<open>2\<^sup>5\<^sup>3 - 1\<close>.\<close>

definition MAX_SAFE_INTEGER :: num where
  "MAX_SAFE_INTEGER = Fin 9007199254740991"

definition yLimiter :: "num \<Rightarrow> num" where
  "yLimiter y =
     (let limit = num_floor (num_div MAX_SAFE_INTEGER (Fin 6))
      in if num_lt (num_abs y) limit then y else limit)"

text \<open>The constructor's \<open>controlPointValidator\<close>: the four control points, or the error
  of the first check that fails. Only an array goes through the checks on its members
  and through \<open>yLimiter\<close>; a keyword is looked up in the map.\<close>

definition controlPointValidator :: "easing \<Rightarrow> error + num list" where
  "controlPointValidator controlPoints =
     (case controlPoints of
        Undefined \<Rightarrow> Inl (ValidationError ''controlPoints'')
      | Keyword k \<Rightarrow>
          (case easingKeywordMap k of
             None \<Rightarrow> Inl (ValidationError ''controlPoints'')
           | Some ps \<Rightarrow> Inr ps)
      | Points ps \<Rightarrow>
          if length ps \<noteq> 4 then Inl (ValidationError ''controlPoints'')
          else
           (case validateArgument ''x1'' (ps ! 0) (Some (Fin 0)) (Some (Fin 1)) False of
              Some e \<Rightarrow> Inl e
            | None \<Rightarrow>
               (case validateArgument ''x2'' (ps ! 2) (Some (Fin 0)) (Some (Fin 1)) False of
                  Some e \<Rightarrow> Inl e
                | None \<Rightarrow> Inr [ps ! 0, yLimiter (ps ! 1), ps ! 2, yLimiter (ps ! 3)])))"

text \<open>The polynomial coefficients, computed as the constructor does.\<close>

definition coefficients :: "num list \<Rightarrow> solver" where
  "coefficients ps =
     (let cx = num_mul (Fin 3) (ps ! 0);
          bx = num_sub (num_mul (Fin 3) (num_sub (ps ! 2) (ps ! 0))) cx;
          ax = num_sub (num_sub (Fin 1) cx) bx;
          cy = num_mul (Fin 3) (ps ! 1);
          by = num_sub (num_mul (Fin 3) (num_sub (ps ! 3) (ps ! 1))) cy;
          ay = num_sub (num_sub (Fin 1) cy) by
      in \<lparr>p1x = ps ! 0, p1y = ps ! 1, p2x = ps ! 2, p2y = ps ! 3,
          ax = ax, bx = bx, cx = cx, ay = ay, by' = by, cy = cy\<rparr>)"

definition CubicBezierSolver :: "easing \<Rightarrow> error + solver" where
  "CubicBezierSolver controlPoints =
     (case controlPointValidator controlPoints of
        Inl e \<Rightarrow> Inl e
      | Inr ps \<Rightarrow> Inr (coefficients ps))"

text \<open>The call spreads the array over four parameters: a missing one is
  \<open>undefined\<close> and equals nothing, one beyond the fourth is ignored.\<close>

definition controlPointsMatchCurrentControlPoints :: "solver \<Rightarrow> num list \<Rightarrow> bool" where
  "controlPointsMatchCurrentControlPoints s ps =
     (4 \<le> length ps
      \<and> num_eq (ps ! 0) (p1x s) \<and> num_eq (ps ! 1) (p1y s)
      \<and> num_eq (ps ! 2) (p2x s) \<and> num_eq (ps ! 3) (p2y s))"

definition sampleCurveX :: "solver \<Rightarrow> num \<Rightarrow> num" where
  "sampleCurveX s t = num_mul (num_add (num_mul (num_add (num_mul (ax s) t) (bx s)) t) (cx s)) t"

definition sampleCurveY :: "solver \<Rightarrow> num \<Rightarrow> num" where
  "sampleCurveY s t = num_mul (num_add (num_mul (num_add (num_mul (ay s) t) (by' s)) t) (cy s)) t"

definition sampleCurveDerivativeX :: "solver \<Rightarrow> num \<Rightarrow> num" where
  "sampleCurveDerivativeX s t =
     num_add
       (num_mul (num_add (num_mul (num_mul (Fin 3) (ax s)) t) (num_mul (Fin 2) (bx s))) t)
       (cx s)"

text \<open>Newton's method, the \<open>for\<close> loop of \<open>solveCurveX\<close>: \<open>Some t\<close> when the loop
  returns \<open>t\<close>, \<open>None\<close> when it ends by \<open>break\<close> or after its eighth round.\<close>

function newton :: "solver \<Rightarrow> num \<Rightarrow> num \<Rightarrow> nat \<Rightarrow> num \<Rightarrow> num option" where
  "newton s x epsilon i t2 =
     (if i < 8 then
        (let x2 = num_sub (sampleCurveX s t2) x in
         if num_lt (num_abs x2) epsilon then Some t2
         else
           (let d2 = sampleCurveDerivativeX s t2 in
            if num_lt (num_abs d2) (lit (1 / 1000000)) then None
            else newton s x epsilon (i + 1) (num_sub t2 (num_div x2 d2))))
      else None)"
  by pat_completeness auto
termination
  by (relation "measure (\<lambda>(s, x, epsilon, i, t2). 8 - i)") auto

declare newton.simps [simp del]

text \<open>The bisection, the \<open>while\<close> loop of \<open>solveCurveX\<close>. Nothing in the loop bounds
  the number of rounds, so not returning is a value of its own: \<open>None\<close>.\<close>

definition midpoint :: "num \<Rightarrow> num \<Rightarrow> num" where
  "midpoint t0 t1 = num_add (num_mul (num_sub t1 t0) (lit (1 / 2))) t0"

partial_function (option) bisection ::
  "solver \<Rightarrow> num \<Rightarrow> num \<Rightarrow> num \<Rightarrow> num \<Rightarrow> num \<Rightarrow> num option" where
  "bisection s x epsilon t0 t1 t2 =
     (if num_lt t0 t1 then
        (let x2 = sampleCurveX s t2 in
         if num_lt (num_abs (num_sub x2 x)) epsilon then Some t2
         else if num_gt x x2 then bisection s x epsilon t2 t1 (midpoint t2 t1)
         else bisection s x epsilon t0 t2 (midpoint t0 t2))
      else Some t2)"

declare bisection.simps [code]

text \<open>\<open>solveCurveX\<close>: \<open>None\<close> when it does not return, otherwise the error thrown or
  the value returned.\<close>

definition solveCurveX :: "solver \<Rightarrow> num \<Rightarrow> num \<Rightarrow> (error + num) option" where
  "solveCurveX s x epsilon =
     (case validateArgument ''x'' x (Some (Fin 0)) (Some (Fin 1)) False of
        Some e \<Rightarrow> Some (Inl e)
      | None \<Rightarrow>
         (case newton s x epsilon 0 x of
            Some t \<Rightarrow> Some (Inr t)
          | None \<Rightarrow> map_option Inr (bisection s x epsilon (Fin 0) (Fin 1) x)))"

definition solve :: "solver \<Rightarrow> num \<Rightarrow> num \<Rightarrow> (error + num) option" where
  "solve s x epsilon =
     map_option (map_sum (\<lambda>e. e) (sampleCurveY s)) (solveCurveX s x epsilon)"

section \<open>SmoothScroller\<close>

subsection \<open>The scroll container, the events, the instance\<close>

text \<open>The scroll container is the part of the DOM element that the class reads and
  writes: a write to \<open>scrollLeft\<close> or \<open>scrollTop\<close> stores the value given (what the
  browser makes of it is outside the source). \<open>overflowHidden\<close> is the inline style
  \<open>overflow: hidden\<close>.\<close>

record container =
  scrollLeft :: num
  scrollTop :: num
  scrollWidth :: num
  clientWidth :: num
  scrollHeight :: num
  clientHeight :: num
  overflowHidden :: bool

text \<open>The object built by \<open>#getScrollEventData\<close>; \<open>interruptedBy\<close> is \<open>None\<close> for
  \<open>null\<close>. The language leaves the value of \<open>Math.hypot\<close> to the implementation:
  \<open>distance\<close> holds the two arguments that \<open>Math.hypot\<close> is called with. (The
  reference to the container is left out: there is one container.)\<close>

record eventData =
  startPoint :: "num \<times> num"
  endPoint :: "num \<times> num"
  distance :: "num \<times> num"
  duration :: num
  elapsedTime :: num
  interruptedBy :: "string option"

text \<open>What the instance does to the outside, in the order in which it does it: it
  calls the \<open>resolve\<close> function of a promise (promises are numbered as they are
  created), dispatches a \<open>CustomEvent\<close>, writes a scroll offset, calls \<open>scrollTo\<close>.\<close>

datatype effect =
    Resolved nat eventData
  | Dispatched string eventData
  | SetScrollLeft num
  | SetScrollTop num
  | ScrollTo num num

text \<open>The private fields of an instance, followed by what the instance shares with
  the browser: \<open>isIOsSafari\<close> of the browser heuristics, the animation frame callbacks
  requested and neither run nor cancelled (\<open>frames\<close>, by id), the next id of a frame
  request and of a promise, and the effects so far. An absent value (\<open>undefined\<close>,
  \<open>null\<close>) is \<open>None\<close>.\<close>

record scroller =
  scrollContainer :: container
  cubicBezierSolver :: "solver option"
  scrolling :: bool
  stopScrollingOnPointerDown :: "bool option"
  scrollDistanceX :: num
  scrollDistanceY :: num
  scrollDuration :: num
  scrollElapsedTime :: num
  scrollEndingPointX :: num
  scrollEndingPointY :: num
  scrollRafId :: "nat option"
  scrollResolve :: "nat option"
  scrollStartingPointX :: num
  scrollStartingPointY :: num
  scrollStartTime :: num
  isIOsSafari :: bool
  frames :: "nat list"
  nextFrame :: nat
  nextPromise :: nat
  effects :: "effect list"

text \<open>An instance as the constructor leaves it.\<close>

definition SmoothScroller :: "container \<Rightarrow> bool \<Rightarrow> scroller" where
  "SmoothScroller c safari =
     \<lparr>scrollContainer = c, cubicBezierSolver = None, scrolling = False,
      stopScrollingOnPointerDown = None,
      scrollDistanceX = NaN, scrollDistanceY = NaN, scrollDuration = NaN,
      scrollElapsedTime = NaN, scrollEndingPointX = NaN, scrollEndingPointY = NaN,
      scrollRafId = None, scrollResolve = None,
      scrollStartingPointX = NaN, scrollStartingPointY = NaN, scrollStartTime = NaN,
      isIOsSafari = safari, frames = [], nextFrame = 0, nextPromise = 0, effects = []\<rparr>"

definition emit :: "effect \<Rightarrow> scroller \<Rightarrow> scroller" where
  "emit e s = s\<lparr>effects := effects s @ [e]\<rparr>"

text \<open>\<open>this.#scrollRafId = requestAnimationFrame(...)\<close> and
  \<open>cancelAnimationFrame(this.#scrollRafId)\<close>.\<close>

definition requestAnimationFrame :: "scroller \<Rightarrow> scroller" where
  "requestAnimationFrame s =
     s\<lparr>frames := frames s @ [nextFrame s], scrollRafId := Some (nextFrame s),
       nextFrame := Suc (nextFrame s)\<rparr>"

definition cancelAnimationFrame :: "scroller \<Rightarrow> scroller" where
  "cancelAnimationFrame s =
     (case scrollRafId s of
        None \<Rightarrow> s
      | Some i \<Rightarrow> s\<lparr>frames := filter (\<lambda>j. j \<noteq> i) (frames s)\<rparr>)"

text \<open>On iOS Safari the inline style \<open>overflow: hidden\<close> is set when a scroll starts
  and removed when it stops: \<open>if (browserHeuristics.isIOsSafari) ...\<close>.\<close>

definition setOverflowHidden :: "bool \<Rightarrow> scroller \<Rightarrow> scroller" where
  "setOverflowHidden b s =
     (if isIOsSafari s
      then s\<lparr>scrollContainer := (scrollContainer s)\<lparr>overflowHidden := b\<rparr>\<rparr>
      else s)"

text \<open>\<open>new Promise((resolve) => { this.#scrollResolve = resolve; ... })\<close>.\<close>

definition newPromise :: "scroller \<Rightarrow> scroller" where
  "newPromise s = s\<lparr>scrollResolve := Some (nextPromise s), nextPromise := Suc (nextPromise s)\<rparr>"

subsection \<open>\<open>#getScrollEventData\<close> and \<open>#stopScroll\<close>\<close>

text \<open>The argument is the \<open>interruptedBy\<close> of \<open>extraData\<close>, \<open>None\<close> when \<open>extraData\<close> has
  none.\<close>

definition getScrollEventData :: "string option \<Rightarrow> scroller \<Rightarrow> eventData" where
  "getScrollEventData extraData s =
     \<lparr>startPoint = (scrollStartingPointX s, scrollStartingPointY s),
      endPoint = (scrollEndingPointX s, scrollEndingPointY s),
      distance =
        (num_abs (num_sub (scrollStartingPointX s) (scrollEndingPointX s)),
         num_abs (num_sub (scrollStartingPointY s) (scrollEndingPointY s))),
      duration = scrollDuration s,
      elapsedTime = scrollElapsedTime s,
      interruptedBy = extraData\<rparr>"

text \<open>Calling \<open>this.#scrollResolve\<close> while it is \<open>null\<close> throws a \<open>TypeError\<close>.\<close>

definition stopScroll :: "string option \<Rightarrow> scroller \<Rightarrow> error + scroller" where
  "stopScroll extraData s =
     (let eventData = getScrollEventData extraData s in
      case scrollResolve s of
        None \<Rightarrow> Inl (TypeError ''scrollResolve is not a function'')
      | Some h \<Rightarrow>
          (let s1 = emit (Resolved h eventData) s;
               s2 = emit (Dispatched ''smoothScrollerScrollStop'' eventData) s1;
               s3 = setOverflowHidden False s2;
               s4 = cancelAnimationFrame s3
           in Inr (s4\<lparr>scrolling := False,
                 scrollDistanceX := NaN, scrollDistanceY := NaN, scrollDuration := NaN,
                 scrollElapsedTime := NaN, scrollEndingPointX := NaN,
                 scrollEndingPointY := NaN, scrollResolve := None,
                 scrollStartingPointX := NaN, scrollStartingPointY := NaN,
                 scrollStartTime := NaN\<rparr>)))"

subsection \<open>\<open>#scroll\<close>\<close>

text \<open>The argument object of \<open>#scroll\<close>; an absent property is \<open>None\<close> and takes its
  default.\<close>

record args =
  arg_x :: "num option"
  arg_y :: "num option"
  arg_duration :: "num option"
  arg_easing :: "easing option"
  arg_stopScrollingOnPointerDown :: "bool option"
  arg_currentTime :: "num option"

text \<open>The parameters of \<open>#scroll\<close> with their defaults: \<open>x\<close> and \<open>y\<close> default to the
  offsets of the container, \<open>duration\<close> to 600, \<open>easing\<close> to \<open>"ease"\<close>,
  \<open>stopScrollingOnPointerDown\<close> to \<open>true\<close>, \<open>currentTime\<close> to NaN.\<close>

definition argX :: "args \<Rightarrow> scroller \<Rightarrow> num" where
  "argX a s = (case arg_x a of None \<Rightarrow> scrollLeft (scrollContainer s) | Some v \<Rightarrow> v)"

definition argY :: "args \<Rightarrow> scroller \<Rightarrow> num" where
  "argY a s = (case arg_y a of None \<Rightarrow> scrollTop (scrollContainer s) | Some v \<Rightarrow> v)"

definition argDuration :: "args \<Rightarrow> num" where
  "argDuration a = (case arg_duration a of None \<Rightarrow> Fin 600 | Some d \<Rightarrow> d)"

definition argEasing :: "args \<Rightarrow> easing" where
  "argEasing a = (case arg_easing a of None \<Rightarrow> Keyword ''ease'' | Some e \<Rightarrow> e)"

definition argStopScrollingOnPointerDown :: "args \<Rightarrow> bool" where
  "argStopScrollingOnPointerDown a =
     (case arg_stopScrollingOnPointerDown a of None \<Rightarrow> True | Some b \<Rightarrow> b)"

definition argCurrentTime :: "args \<Rightarrow> num" where
  "argCurrentTime a = (case arg_currentTime a of None \<Rightarrow> NaN | Some t \<Rightarrow> t)"

text \<open>How a call of \<open>#scroll\<close> ends. The method is \<open>async\<close>: it always returns a
  promise, and an error thrown in its body rejects that promise. \<open>Awaiting h\<close>: the
  promise returned settles as promise \<open>h\<close> does; \<open>Fulfilled\<close>: it is fulfilled with
  \<open>undefined\<close>. \<open>Thrown\<close> stands for an exception that reaches the caller during the
  call.\<close>

datatype outcome = Thrown error | Rejected error | Awaiting nat | Fulfilled

text \<open>Lines 106 to 142: the validation of the arguments and the choice of the solver.
  The state changes only when all of it has passed.\<close>

definition lookupEasing :: "easing \<Rightarrow> easing" where
  "lookupEasing e =
     (case e of
        Keyword k \<Rightarrow> (case easingKeywordMap k of None \<Rightarrow> Undefined | Some ps \<Rightarrow> Points ps)
      | _ \<Rightarrow> e)"

definition chooseSolver :: "easing \<Rightarrow> scroller \<Rightarrow> error + scroller" where
  "chooseSolver e s =
     (case cubicBezierSolver s of
        None \<Rightarrow>
          (case CubicBezierSolver e of
             Inl err \<Rightarrow> Inl err
           | Inr sv \<Rightarrow> Inr (s\<lparr>cubicBezierSolver := Some sv\<rparr>))
      | Some cur \<Rightarrow>
          (case e of
             Points ps \<Rightarrow>
               if controlPointsMatchCurrentControlPoints cur ps then Inr s
               else
                (case CubicBezierSolver e of
                   Inl err \<Rightarrow> Inl err
                 | Inr sv \<Rightarrow> Inr (s\<lparr>cubicBezierSolver := Some sv\<rparr>))
           | _ \<Rightarrow> Inl (TypeError ''easing is not iterable'')))"

definition validated :: "args \<Rightarrow> scroller \<Rightarrow> error + scroller" where
  "validated a s =
     (case validateArgument ''duration'' (argDuration a) (Some (Fin 0)) None True of
        Some err \<Rightarrow> Inl err
      | None \<Rightarrow> chooseSolver (lookupEasing (argEasing a)) s)"

text \<open>Lines 154 to 164: the requested coordinate corrected to the edges, the far edge
  being the scroll size minus the client size.\<close>

definition limitCorrected :: "num \<Rightarrow> num \<Rightarrow> num" where
  "limitCorrected v farEdge =
     (if num_lt v (Fin 0) then Fin 0 else if num_gt v farEdge then farEdge else v)"

definition rightEdge :: "container \<Rightarrow> num" where
  "rightEdge c = num_sub (scrollWidth c) (clientWidth c)"

definition bottomEdge :: "container \<Rightarrow> num" where
  "bottomEdge c = num_sub (scrollHeight c) (clientHeight c)"

text \<open>The rest of a call with a timestamp, lines 198 to 260, in parts. First, up to
  the call of the solver: the start time is taken when the field is falsy, the
  events are dispatched, the elapsed time is stored.\<close>

definition frameStart :: "num \<Rightarrow> scroller \<Rightarrow> scroller" where
  "frameStart currentTime s =
     (let s1 = (if \<not> truthy (scrollStartTime s)
                then (let s' = s\<lparr>scrollStartTime := currentTime, scrolling := True\<rparr>
                      in emit (Dispatched ''smoothScrollerScrollStart''
                                 (getScrollEventData None s')) s')
                else s);
          s2 = emit (Dispatched ''smoothScrollerScroll'' (getScrollEventData None s1)) s1
      in s2\<lparr>scrollElapsedTime := num_sub currentTime (scrollStartTime s2)\<rparr>)"

definition elapsedTimeRatio :: "scroller \<Rightarrow> num" where
  "elapsedTimeRatio s = num_min (num_div (scrollElapsedTime s) (scrollDuration s)) (Fin 1)"

text \<open>Then, from the value of the solver on, lines 230 to 250: each axis whose
  distance is truthy has its offset written, and the offsets are read back into the
  ending point.\<close>

definition writeOffsets :: "num \<Rightarrow> scroller \<Rightarrow> scroller" where
  "writeOffsets scrollRatio s =
     (let s1 = (if truthy (scrollDistanceX s)
                then (let nextScrollLeft =
                            num_add (scrollStartingPointX s) (num_mul scrollRatio (scrollDistanceX s))
                      in emit (SetScrollLeft nextScrollLeft)
                           (s\<lparr>scrollContainer := (scrollContainer s)\<lparr>scrollLeft := nextScrollLeft\<rparr>\<rparr>))
                else s);
          s2 = (if truthy (scrollDistanceY s1)
                then (let nextScrollTop =
                            num_add (scrollStartingPointY s1) (num_mul scrollRatio (scrollDistanceY s1))
                      in emit (SetScrollTop nextScrollTop)
                           (s1\<lparr>scrollContainer := (scrollContainer s1)\<lparr>scrollTop := nextScrollTop\<rparr>\<rparr>))
                else s1)
      in s2\<lparr>scrollEndingPointX := scrollLeft (scrollContainer s2),
             scrollEndingPointY := scrollTop (scrollContainer s2)\<rparr>)"

text \<open>Last, lines 252 to 260 (\<open>ratio\<close> is the \<open>elapsedTimeRatio\<close> computed before the call
  of the solver): the next frame is requested or the scroll stopped.\<close>

definition frameEnd :: "num \<Rightarrow> num \<Rightarrow> scroller \<Rightarrow> outcome \<times> scroller" where
  "frameEnd ratio scrollRatio s =
     (let s3 = writeOffsets scrollRatio s
      in if num_lt ratio (Fin 1) then (Fulfilled, requestAnimationFrame s3)
         else if num_ge ratio (Fin 1) then
           (case stopScroll None s3 of
              Inl err \<Rightarrow> (Rejected err, s3)
            | Inr s4 \<Rightarrow> (Fulfilled, s4))
         else (Fulfilled, s3))"

text \<open>The parts together. \<open>None\<close>: the solver does not return.\<close>

definition frame :: "num \<Rightarrow> scroller \<Rightarrow> (outcome \<times> scroller) option" where
  "frame currentTime s =
     (let s1 = frameStart currentTime s in
      case cubicBezierSolver s1 of
        None \<Rightarrow> Some (Rejected (TypeError ''cubicBezierSolver is undefined''), s1)
      | Some sv \<Rightarrow>
         (case solve sv (elapsedTimeRatio s1)
                 (num_div (Fin 1) (num_mul (Fin 200) (scrollDuration s1))) of
            None \<Rightarrow> None
          | Some (Inl err) \<Rightarrow> Some (Rejected err, s1)
          | Some (Inr scrollRatio) \<Rightarrow> Some (frameEnd (elapsedTimeRatio s1) scrollRatio s1)))"

text \<open>Lines 144 and 145: a scroll still awaited is stopped first.\<close>

definition interruptPrevious :: "scroller \<Rightarrow> scroller" where
  "interruptPrevious s =
     (if scrollResolve s \<noteq> None
      then (case stopScroll (Some ''New smooth scroll'') s of Inl err \<Rightarrow> s | Inr s' \<Rightarrow> s')
      else s)"

text \<open>Lines 144 to 196: a new scroll, once the arguments are validated. \<open>Inl\<close>: the call
  returns; \<open>Inr\<close>: neither branch on the distances is taken (a distance is NaN) and the
  call goes on below the \<open>if (isNewScroll)\<close> block.\<close>

definition newScroll :: "args \<Rightarrow> scroller \<Rightarrow> (outcome \<times> scroller) + scroller" where
  "newScroll a s =
     (let x = argX a s;
          y = argY a s;
          s1 = interruptPrevious s;
          s2 = setOverflowHidden True s1;
          s3 = s2\<lparr>stopScrollingOnPointerDown := Some (argStopScrollingOnPointerDown a),
                  scrollStartingPointX := scrollLeft (scrollContainer s2),
                  scrollStartingPointY := scrollTop (scrollContainer s2)\<rparr>;
          limitCorrectedX = limitCorrected x (rightEdge (scrollContainer s3));
          limitCorrectedY = limitCorrected y (bottomEdge (scrollContainer s3));
          s4 = s3\<lparr>scrollDistanceX := num_sub limitCorrectedX (scrollStartingPointX s3),
                  scrollDistanceY := num_sub limitCorrectedY (scrollStartingPointY s3)\<rparr>;
          absoluteScrollDistanceX = num_abs (scrollDistanceX s4);
          absoluteScrollDistanceY = num_abs (scrollDistanceY s4)
      in if num_lt absoluteScrollDistanceX (Fin 1) \<and> num_lt absoluteScrollDistanceY (Fin 1) then
           (let s5 = newPromise s4 in
            case stopScroll None s5 of
              Inl err \<Rightarrow> Inl (Rejected err, s5)
            | Inr s6 \<Rightarrow> Inl (Awaiting (nextPromise s4), s6))
         else if num_ge absoluteScrollDistanceX (Fin 1) \<or> num_ge absoluteScrollDistanceY (Fin 1) then
           (let s5 = s4\<lparr>scrollDuration := argDuration a\<rparr> in
            if num_le (scrollDuration s5) (Fin 0) then
              (let s6 = emit (ScrollTo limitCorrectedX limitCorrectedY)
                          (s5\<lparr>scrollContainer := (scrollContainer s5)
                                \<lparr>scrollLeft := limitCorrectedX, scrollTop := limitCorrectedY\<rparr>\<rparr>);
                   s7 = newPromise s6
               in case stopScroll None s7 of
                    Inl err \<Rightarrow> Inl (Rejected err, s7)
                  | Inr s8 \<Rightarrow> Inl (Awaiting (nextPromise s6), s8))
            else if num_gt (scrollDuration s5) (Fin 0) then
              Inl (Awaiting (nextPromise s5), requestAnimationFrame (newPromise s5))
            else Inr s5)
         else Inr s4)"

text \<open>\<open>#scroll\<close>. A call without \<open>currentTime\<close>, or with NaN for it, is a new scroll.\<close>

definition scroll :: "args \<Rightarrow> scroller \<Rightarrow> (outcome \<times> scroller) option" where
  "scroll a s =
     (let currentTime = argCurrentTime a in
      if isNaN currentTime then
        (case validated a s of
           Inl err \<Rightarrow> Some (Rejected err, s)
         | Inr s1 \<Rightarrow>
            (case newScroll a s1 of
               Inl result \<Rightarrow> Some result
             | Inr s2 \<Rightarrow> frame currentTime s2))
      else frame currentTime s)"

subsection \<open>What happens to an instance\<close>

text \<open>The page calls the static \<open>scroll\<close>, which passes everything but a
  \<open>currentTime\<close>; the browser runs a requested animation frame callback, which calls
  \<open>#scroll\<close> with the timestamp alone; a pointer goes down on the container.\<close>

datatype event = Scroll args | AnimationFrame nat num | PointerDown

definition request :: "args \<Rightarrow> scroller \<Rightarrow> (outcome \<times> scroller) option" where
  "request a s = scroll (a\<lparr>arg_currentTime := None\<rparr>) s"

definition animationFrame :: "nat \<Rightarrow> num \<Rightarrow> scroller \<Rightarrow> (outcome \<times> scroller) option" where
  "animationFrame i timestamp s =
     (if i \<in> set (frames s) then
        scroll \<lparr>arg_x = None, arg_y = None, arg_duration = None, arg_easing = None,
                arg_stopScrollingOnPointerDown = None, arg_currentTime = Some timestamp\<rparr>
          (s\<lparr>frames := filter (\<lambda>j. j \<noteq> i) (frames s)\<rparr>)
      else Some (Fulfilled, s))"

definition pointerdown :: "scroller \<Rightarrow> scroller" where
  "pointerdown s =
     (if scrollResolve s \<noteq> None \<and> stopScrollingOnPointerDown s = Some True
      then (case stopScroll (Some ''Pointer down on scroll container'') s of
              Inl err \<Rightarrow> s
            | Inr s' \<Rightarrow> s')
      else s)"

fun fire :: "event \<Rightarrow> scroller \<Rightarrow> scroller option" where
  "fire (Scroll a) s = map_option snd (request a s)"
| "fire (AnimationFrame i t) s = map_option snd (animationFrame i t s)"
| "fire PointerDown s = Some (pointerdown s)"

fun run :: "event list \<Rightarrow> scroller \<Rightarrow> scroller option" where
  "run [] s = Some s"
| "run (e # es) s = (case fire e s of None \<Rightarrow> None | Some s' \<Rightarrow> run es s')"

section \<open>Auxiliary definitions\<close>

subsection \<open>The bisection, one round at a time\<close>

text \<open>One round of the \<open>while\<close> loop of \<open>solveCurveX\<close> on the state \<open>(t0, t1, t2)\<close>:
  \<open>None\<close> when the loop returns in this round, the next state otherwise
  (\<open>bisection_unfold\<close> below); and \<open>n\<close> rounds in a row.\<close>

definition bisection_next ::
  "solver \<Rightarrow> num \<Rightarrow> num \<Rightarrow> num \<times> num \<times> num \<Rightarrow> (num \<times> num \<times> num) option" where
  "bisection_next s x epsilon st =
     (case st of (t0, t1, t2) \<Rightarrow>
        if num_lt t0 t1 then
          (let x2 = sampleCurveX s t2 in
           if num_lt (num_abs (num_sub x2 x)) epsilon then None
           else if num_gt x x2 then Some (t2, t1, midpoint t2 t1)
           else Some (t0, t2, midpoint t0 t2))
        else None)"

fun bisection_after ::
  "nat \<Rightarrow> solver \<Rightarrow> num \<Rightarrow> num \<Rightarrow> num \<times> num \<times> num \<Rightarrow> (num \<times> num \<times> num) option" where
  "bisection_after 0 s x epsilon st = Some st"
| "bisection_after (Suc n) s x epsilon st =
     (case bisection_next s x epsilon st of
        None \<Rightarrow> None
      | Some st' \<Rightarrow> bisection_after n s x epsilon st')"

text \<open>The solver of the keyword \<open>linear\<close>, that is of the control points
  \<open>[0, 0, 1, 1]\<close>; the tolerance \<open>2\<^sup>-\<^sup>6\<^sup>0\<close>; and the state \<open>(t0, t1, t2)\<close> that the
  bisection for \<open>x = 0.25\<close> reaches after 55 rounds, with
  \<open>t0 = 5879031781803579 / 2\<^sup>5\<^sup>4\<close> and \<open>t1 = t2 = 1469757945450895 / 2\<^sup>5\<^sup>2\<close>, the binary64
  number next above \<open>t0\<close>.\<close>

definition linear :: solver where
  "linear = \<lparr>p1x = Fin 0, p1y = Fin 0, p2x = Fin 1, p2y = Fin 1,
     ax = Fin (- 2), bx = Fin 3, cx = Fin 0, ay = Fin (- 2), by' = Fin 3, cy = Fin 0\<rparr>"

definition tiny :: num where
  "tiny = Fin (1 / 1152921504606846976)"

definition stuck :: "num \<times> num \<times> num" where
  "stuck = (Fin (5879031781803579 / 18014398509481984),
            Fin (1469757945450895 / 4503599627370496),
            Fin (1469757945450895 / 4503599627370496))"

subsection \<open>Observations\<close>

text \<open>The promises resolved, in order, each with the \<open>interruptedBy\<close> it was resolved
  with; the data a given promise was resolved with.\<close>

fun resolutions :: "effect list \<Rightarrow> (nat \<times> string option) list" where
  "resolutions [] = []"
| "resolutions (Resolved h d # es) = (h, interruptedBy d) # resolutions es"
| "resolutions (e # es) = resolutions es"

fun resolvedWith :: "nat \<Rightarrow> effect list \<Rightarrow> eventData list" where
  "resolvedWith h [] = []"
| "resolvedWith h (Resolved h' d # es) =
     (if h' = h then d # resolvedWith h es else resolvedWith h es)"
| "resolvedWith h (e # es) = resolvedWith h es"

text \<open>The effects that are a frame sample (a \<open>smoothScrollerScroll\<close> event), a start of
  scroll, a write of an offset.\<close>

fun isFrameSample :: "effect \<Rightarrow> bool" where
  "isFrameSample (Dispatched name d) = (name = ''smoothScrollerScroll'')"
| "isFrameSample e = False"

fun isScrollStart :: "effect \<Rightarrow> bool" where
  "isScrollStart (Dispatched name d) = (name = ''smoothScrollerScrollStart'')"
| "isScrollStart e = False"

fun isWrite :: "effect \<Rightarrow> bool" where
  "isWrite (SetScrollLeft v) = True"
| "isWrite (SetScrollTop v) = True"
| "isWrite (ScrollTo u v) = True"
| "isWrite e = False"

text \<open>The distance a new scroll registers on each axis: the corrected target minus
  the offset of the container.\<close>

definition requestedDistanceX :: "args \<Rightarrow> scroller \<Rightarrow> num" where
  "requestedDistanceX a s =
     num_sub (limitCorrected (argX a s) (rightEdge (scrollContainer s)))
       (scrollLeft (scrollContainer s))"

definition requestedDistanceY :: "args \<Rightarrow> scroller \<Rightarrow> num" where
  "requestedDistanceY a s =
     num_sub (limitCorrected (argY a s) (bottomEdge (scrollContainer s)))
       (scrollTop (scrollContainer s))"

text \<open>The offsets that a call with a timestamp writes once the solver has returned
  \<open>scrollRatio\<close>: one on each axis whose distance is truthy.\<close>

definition writes :: "num \<Rightarrow> scroller \<Rightarrow> effect list" where
  "writes scrollRatio s =
     (if truthy (scrollDistanceX s)
      then [SetScrollLeft
              (num_add (scrollStartingPointX s) (num_mul scrollRatio (scrollDistanceX s)))]
      else [])
     @ (if truthy (scrollDistanceY s)
        then [SetScrollTop
                (num_add (scrollStartingPointY s) (num_mul scrollRatio (scrollDistanceY s)))]
        else [])"

text \<open>The effects of a call, whatever its outcome.\<close>

definition effectsOf :: "(outcome \<times> scroller) option \<Rightarrow> effect list" where
  "effectsOf r = (case r of None \<Rightarrow> [] | Some (out, s) \<Rightarrow> effects s)"

subsection \<open>Containers and arguments of the examples\<close>

text \<open>A page 2000 high in a window 1000 high, scrolled to the top; a container whose
  scroll width is below its client width.\<close>

definition page :: container where
  "page = \<lparr>scrollLeft = Fin 0, scrollTop = Fin 0, scrollWidth = Fin 1000, clientWidth = Fin 1000,
     scrollHeight = Fin 2000, clientHeight = Fin 1000, overflowHidden = False\<rparr>"

definition narrow :: container where
  "narrow = \<lparr>scrollLeft = Fin 0, scrollTop = Fin 0, scrollWidth = Fin 100, clientWidth = Fin 200,
     scrollHeight = Fin 100, clientHeight = Fin 100, overflowHidden = False\<rparr>"

definition noArgs :: args where
  "noArgs = \<lparr>arg_x = None, arg_y = None, arg_duration = None, arg_easing = None,
     arg_stopScrollingOnPointerDown = None, arg_currentTime = None\<rparr>"

subsection \<open>States that the class produces\<close>

text \<open>While no promise is outstanding the elapsed time and the duration are NaN and no
  animation frame is requested; at most one animation frame is requested, the one the
  instance holds the id of. Every state reached from a new instance is of this kind
  (\<open>run_consistent\<close> below).\<close>

definition consistent :: "scroller \<Rightarrow> bool" where
  "consistent s =
     ((scrollResolve s = None \<longrightarrow>
         scrollElapsedTime s = NaN \<and> scrollDuration s = NaN \<and> frames s = [])
      \<and> (frames s = [] \<or> map Some (frames s) = [scrollRafId s]))"

text \<open>A request that starts an animation: its arguments are valid, its duration is
  above 0 and it asks for a distance of at least 1 on some axis; and a list of such
  requests made one after the other.\<close>

definition animating :: "args \<Rightarrow> scroller \<Rightarrow> bool" where
  "animating a s =
     ((case validated a s of Inl err \<Rightarrow> False | Inr s1 \<Rightarrow> True)
      \<and> num_gt (argDuration a) (Fin 0)
      \<and> (num_ge (num_abs (requestedDistanceX a s)) (Fin 1)
         \<or> num_ge (num_abs (requestedDistanceY a s)) (Fin 1)))"

fun successive :: "args list \<Rightarrow> scroller \<Rightarrow> bool" where
  "successive [] s = True"
| "successive (a # as) s =
     (animating a s
      \<and> (case request a s of None \<Rightarrow> False | Some (out, s') \<Rightarrow> successive as s'))"

text \<open>Requests made one after the other, with what each call returns.\<close>

fun requests :: "args list \<Rightarrow> scroller \<Rightarrow> (outcome list \<times> scroller) option" where
  "requests [] s = Some ([], s)"
| "requests (a # as) s =
     (case request a s of
        None \<Rightarrow> None
      | Some (out, s1) \<Rightarrow>
          (case requests as s1 of
             None \<Rightarrow> None
           | Some (outs, s') \<Rightarrow> Some (out # outs, s')))"

text \<open>A new instance on the page; a request to scroll beyond the bottom of the page and
  one to scroll to its middle; a request with a negative duration.\<close>

definition fresh :: scroller where
  "fresh = SmoothScroller page False"

definition toBottom :: args where
  "toBottom = noArgs\<lparr>arg_y := Some (Fin 1500)\<rparr>"

definition toMiddle :: args where
  "toMiddle = noArgs\<lparr>arg_y := Some (Fin 500)\<rparr>"

definition negativeDuration :: args where
  "negativeDuration = noArgs\<lparr>arg_duration := Some (Fin (- 1))\<rparr>"

text \<open>A request for the horizontal offset 50; requests with an unknown keyword and
  with a first control point outside [0, 1].\<close>

definition unknownKeyword :: args where
  "unknownKeyword = noArgs\<lparr>arg_easing := Some (Keyword ''bounce'')\<rparr>"

definition badControlPoints :: args where
  "badControlPoints = noArgs\<lparr>arg_easing := Some (Points [Fin 2, Fin 0, Fin 1, Fin 1])\<rparr>"

definition toFifty :: args where
  "toFifty = noArgs\<lparr>arg_x := Some (Fin 50)\<rparr>"

text \<open>The solver of the keyword \<open>ease\<close>; the instance after the first of the two
  requests, after both (the first scroll interrupted, the second awaited), and after
  each of two animation frames that follow them, at 100 and at 700 (the second scroll
  completed).\<close>

definition ease :: solver where
  "ease = \<lparr>p1x = Fin (1 / 4), p1y = Fin (3602879701896397 / 36028797018963968),
     p2x = Fin (1 / 4), p2y = Fin 1, ax = Fin 1, bx = Fin (- (3 / 4)), cx = Fin (3 / 4),
     ay = Fin (- (7656119366529845 / 4503599627370496)),
     by' = Fin (1351079888211149 / 562949953421312),
     cy = Fin (1351079888211149 / 4503599627370496)\<rparr>"

definition interrupted :: eventData where
  "interrupted = \<lparr>startPoint = (Fin 0, Fin 0), endPoint = (NaN, NaN), distance = (NaN, NaN),
     duration = Fin 600, elapsedTime = NaN, interruptedBy = Some ''New smooth scroll''\<rparr>"

definition afterFirstRequest :: scroller where
  "afterFirstRequest =
     \<lparr>scrollContainer = page, cubicBezierSolver = Some ease,
      scrolling = False, stopScrollingOnPointerDown = Some True,
      scrollDistanceX = Fin 0, scrollDistanceY = Fin 1000, scrollDuration = Fin 600,
      scrollElapsedTime = NaN, scrollEndingPointX = NaN, scrollEndingPointY = NaN,
      scrollRafId = Some 0, scrollResolve = Some 0,
      scrollStartingPointX = Fin 0, scrollStartingPointY = Fin 0, scrollStartTime = NaN,
      isIOsSafari = False, frames = [0], nextFrame = 1, nextPromise = 1, effects = []\<rparr>"

definition afterRequests :: scroller where
  "afterRequests =
     \<lparr>scrollContainer = page, cubicBezierSolver = Some ease,
      scrolling = False, stopScrollingOnPointerDown = Some True,
      scrollDistanceX = Fin 0, scrollDistanceY = Fin 500, scrollDuration = Fin 600,
      scrollElapsedTime = NaN, scrollEndingPointX = NaN, scrollEndingPointY = NaN,
      scrollRafId = Some 1, scrollResolve = Some 1,
      scrollStartingPointX = Fin 0, scrollStartingPointY = Fin 0, scrollStartTime = NaN,
      isIOsSafari = False, frames = [1], nextFrame = 2, nextPromise = 2,
      effects = [Resolved 0 interrupted, Dispatched ''smoothScrollerScrollStop'' interrupted]\<rparr>"

definition firstSample :: eventData where
  "firstSample = \<lparr>startPoint = (Fin 0, Fin 0), endPoint = (NaN, NaN), distance = (NaN, NaN),
     duration = Fin 600, elapsedTime = NaN, interruptedBy = None\<rparr>"

definition secondSample :: eventData where
  "secondSample = \<lparr>startPoint = (Fin 0, Fin 0), endPoint = (Fin 0, Fin 0),
     distance = (Fin 0, Fin 0), duration = Fin 600, elapsedTime = Fin 0, interruptedBy = None\<rparr>"

definition completed :: eventData where
  "completed = \<lparr>startPoint = (Fin 0, Fin 0), endPoint = (Fin 0, Fin 500),
     distance = (Fin 0, Fin 500), duration = Fin 600, elapsedTime = Fin 600,
     interruptedBy = None\<rparr>"

definition afterFirstFrame :: scroller where
  "afterFirstFrame =
     \<lparr>scrollContainer = page, cubicBezierSolver = Some ease,
      scrolling = True, stopScrollingOnPointerDown = Some True,
      scrollDistanceX = Fin 0, scrollDistanceY = Fin 500, scrollDuration = Fin 600,
      scrollElapsedTime = Fin 0, scrollEndingPointX = Fin 0, scrollEndingPointY = Fin 0,
      scrollRafId = Some 2, scrollResolve = Some 1,
      scrollStartingPointX = Fin 0, scrollStartingPointY = Fin 0, scrollStartTime = Fin 100,
      isIOsSafari = False, frames = [2], nextFrame = 3, nextPromise = 2,
      effects = [Resolved 0 interrupted, Dispatched ''smoothScrollerScrollStop'' interrupted,
        Dispatched ''smoothScrollerScrollStart'' firstSample,
        Dispatched ''smoothScrollerScroll'' firstSample,
        SetScrollTop (Fin 0)]\<rparr>"

definition afterFrames :: scroller where
  "afterFrames =
     \<lparr>scrollContainer = page\<lparr>scrollTop := Fin 500\<rparr>, cubicBezierSolver = Some ease,
      scrolling = False, stopScrollingOnPointerDown = Some True,
      scrollDistanceX = NaN, scrollDistanceY = NaN, scrollDuration = NaN,
      scrollElapsedTime = NaN, scrollEndingPointX = NaN, scrollEndingPointY = NaN,
      scrollRafId = Some 2, scrollResolve = None,
      scrollStartingPointX = NaN, scrollStartingPointY = NaN, scrollStartTime = NaN,
      isIOsSafari = False, frames = [], nextFrame = 3, nextPromise = 2,
      effects = [Resolved 0 interrupted, Dispatched ''smoothScrollerScrollStop'' interrupted,
        Dispatched ''smoothScrollerScrollStart'' firstSample,
        Dispatched ''smoothScrollerScroll'' firstSample,
        SetScrollTop (Fin 0),
        Dispatched ''smoothScrollerScroll'' secondSample,
        SetScrollTop (Fin 500),
        Resolved 1 completed, Dispatched ''smoothScrollerScrollStop'' completed]\<rparr>"

section \<open>Evaluation\<close>

text \<open>The recursions of the rounding unfold on a decided condition only, so that the
  simplifier evaluates \<open>round64\<close> on a literal and stops on a variable.\<close>

lemma ilog_up_step: "2 \<le> r \<Longrightarrow> ilog_up r = 1 + ilog_up (r / 2)"
  by (subst ilog_up.simps) simp

lemma ilog_up_stop: "r < 2 \<Longrightarrow> ilog_up r = 0"
  by (subst ilog_up.simps) simp

lemma ilog_down_step: "0 < r \<Longrightarrow> r < 1 \<Longrightarrow> ilog_down r = ilog_down (2 * r) - 1"
  by (subst ilog_down.simps) simp

lemma ilog_down_stop: "1 \<le> r \<Longrightarrow> ilog_down r = 0"
  by (subst ilog_down.simps) simp

lemmas round64_eval = round64_def overflow_def quantize_def round_even_def ties_even_def
  expo_def pow2_def ilog_up_step ilog_up_stop ilog_down_step ilog_down_stop

section \<open>Lemmas on the steps of a scroll\<close>

lemma num_le_Fin [simp]: "num_le (Fin a) (Fin b) = (a \<le> b)"
  by (auto simp: num_le_def)


lemma validated_Inr:
  "validated a s = Inr s1 \<Longrightarrow> s1 = s\<lparr>cubicBezierSolver := cubicBezierSolver s1\<rparr>"
  by (auto simp: validated_def chooseSolver_def Let_def split: option.splits sum.splits easing.splits if_splits)

lemma arg_currentTime_simps [simp]:
  "argX (a\<lparr>arg_currentTime := t\<rparr>) s = argX a s"
  "argY (a\<lparr>arg_currentTime := t\<rparr>) s = argY a s"
  "argDuration (a\<lparr>arg_currentTime := t\<rparr>) = argDuration a"
  "argEasing (a\<lparr>arg_currentTime := t\<rparr>) = argEasing a"
  "argStopScrollingOnPointerDown (a\<lparr>arg_currentTime := t\<rparr>) = argStopScrollingOnPointerDown a"
  "argCurrentTime (a\<lparr>arg_currentTime := t\<rparr>) = (case t of None \<Rightarrow> NaN | Some v \<Rightarrow> v)"
  by (simp_all add: argX_def argY_def argDuration_def argEasing_def
      argStopScrollingOnPointerDown_def argCurrentTime_def)

lemma validated_currentTime [simp]: "validated (a\<lparr>arg_currentTime := t\<rparr>) s = validated a s"
  by (simp add: validated_def split: option.splits)

lemma argXY_solver [simp]:
  "argX a (s\<lparr>cubicBezierSolver := v\<rparr>) = argX a s"
  "argY a (s\<lparr>cubicBezierSolver := v\<rparr>) = argY a s"
  by (simp_all add: argX_def argY_def split: option.splits)

lemma validated_duration:
  "validated a s = Inr s1 \<Longrightarrow> \<exists>d. argDuration a = Fin d \<and> 0 \<le> d"
  by (cases "argDuration a")
    (auto simp: validated_def Let_def validateArgument_def split: option.splits if_splits)

lemma validated_solver:
  "validated a s = Inr s1 \<Longrightarrow> cubicBezierSolver s1 \<noteq> None"
  by (auto simp: validated_def chooseSolver_def Let_def split: option.splits sum.splits easing.splits if_splits)

subsection \<open>The fields after each step\<close>

lemma emit_simps [simp]:
  "effects (emit e s) = effects s @ [e]"
  "scrollContainer (emit e s) = scrollContainer s"
  "cubicBezierSolver (emit e s) = cubicBezierSolver s"
  "scrolling (emit e s) = scrolling s"
  "stopScrollingOnPointerDown (emit e s) = stopScrollingOnPointerDown s"
  "scrollDistanceX (emit e s) = scrollDistanceX s"
  "scrollDistanceY (emit e s) = scrollDistanceY s"
  "scrollDuration (emit e s) = scrollDuration s"
  "scrollElapsedTime (emit e s) = scrollElapsedTime s"
  "scrollEndingPointX (emit e s) = scrollEndingPointX s"
  "scrollEndingPointY (emit e s) = scrollEndingPointY s"
  "scrollRafId (emit e s) = scrollRafId s"
  "scrollResolve (emit e s) = scrollResolve s"
  "scrollStartingPointX (emit e s) = scrollStartingPointX s"
  "scrollStartingPointY (emit e s) = scrollStartingPointY s"
  "scrollStartTime (emit e s) = scrollStartTime s"
  "isIOsSafari (emit e s) = isIOsSafari s"
  "frames (emit e s) = frames s"
  "nextFrame (emit e s) = nextFrame s"
  "nextPromise (emit e s) = nextPromise s"
  by (simp_all add: emit_def)

lemma setOverflowHidden_simps [simp]:
  "effects (setOverflowHidden b s) = effects s"
  "scrollContainer (setOverflowHidden b s) =
     (if isIOsSafari s then (scrollContainer s)\<lparr>overflowHidden := b\<rparr> else scrollContainer s)"
  "cubicBezierSolver (setOverflowHidden b s) = cubicBezierSolver s"
  "scrolling (setOverflowHidden b s) = scrolling s"
  "stopScrollingOnPointerDown (setOverflowHidden b s) = stopScrollingOnPointerDown s"
  "scrollDistanceX (setOverflowHidden b s) = scrollDistanceX s"
  "scrollDistanceY (setOverflowHidden b s) = scrollDistanceY s"
  "scrollDuration (setOverflowHidden b s) = scrollDuration s"
  "scrollElapsedTime (setOverflowHidden b s) = scrollElapsedTime s"
  "scrollEndingPointX (setOverflowHidden b s) = scrollEndingPointX s"
  "scrollEndingPointY (setOverflowHidden b s) = scrollEndingPointY s"
  "scrollRafId (setOverflowHidden b s) = scrollRafId s"
  "scrollResolve (setOverflowHidden b s) = scrollResolve s"
  "scrollStartingPointX (setOverflowHidden b s) = scrollStartingPointX s"
  "scrollStartingPointY (setOverflowHidden b s) = scrollStartingPointY s"
  "scrollStartTime (setOverflowHidden b s) = scrollStartTime s"
  "isIOsSafari (setOverflowHidden b s) = isIOsSafari s"
  "frames (setOverflowHidden b s) = frames s"
  "nextFrame (setOverflowHidden b s) = nextFrame s"
  "nextPromise (setOverflowHidden b s) = nextPromise s"
  by (simp_all add: setOverflowHidden_def)

lemma cancelAnimationFrame_simps [simp]:
  "effects (cancelAnimationFrame s) = effects s"
  "scrollContainer (cancelAnimationFrame s) = scrollContainer s"
  "cubicBezierSolver (cancelAnimationFrame s) = cubicBezierSolver s"
  "scrolling (cancelAnimationFrame s) = scrolling s"
  "stopScrollingOnPointerDown (cancelAnimationFrame s) = stopScrollingOnPointerDown s"
  "scrollDistanceX (cancelAnimationFrame s) = scrollDistanceX s"
  "scrollDistanceY (cancelAnimationFrame s) = scrollDistanceY s"
  "scrollDuration (cancelAnimationFrame s) = scrollDuration s"
  "scrollElapsedTime (cancelAnimationFrame s) = scrollElapsedTime s"
  "scrollEndingPointX (cancelAnimationFrame s) = scrollEndingPointX s"
  "scrollEndingPointY (cancelAnimationFrame s) = scrollEndingPointY s"
  "scrollRafId (cancelAnimationFrame s) = scrollRafId s"
  "scrollResolve (cancelAnimationFrame s) = scrollResolve s"
  "scrollStartingPointX (cancelAnimationFrame s) = scrollStartingPointX s"
  "scrollStartingPointY (cancelAnimationFrame s) = scrollStartingPointY s"
  "scrollStartTime (cancelAnimationFrame s) = scrollStartTime s"
  "isIOsSafari (cancelAnimationFrame s) = isIOsSafari s"
  "frames (cancelAnimationFrame s) = filter (\<lambda>j. Some j \<noteq> scrollRafId s) (frames s)"
  "nextFrame (cancelAnimationFrame s) = nextFrame s"
  "nextPromise (cancelAnimationFrame s) = nextPromise s"
  by (simp_all add: cancelAnimationFrame_def split: option.splits)

lemma requestAnimationFrame_simps [simp]:
  "effects (requestAnimationFrame s) = effects s"
  "scrollContainer (requestAnimationFrame s) = scrollContainer s"
  "cubicBezierSolver (requestAnimationFrame s) = cubicBezierSolver s"
  "scrolling (requestAnimationFrame s) = scrolling s"
  "stopScrollingOnPointerDown (requestAnimationFrame s) = stopScrollingOnPointerDown s"
  "scrollDistanceX (requestAnimationFrame s) = scrollDistanceX s"
  "scrollDistanceY (requestAnimationFrame s) = scrollDistanceY s"
  "scrollDuration (requestAnimationFrame s) = scrollDuration s"
  "scrollElapsedTime (requestAnimationFrame s) = scrollElapsedTime s"
  "scrollEndingPointX (requestAnimationFrame s) = scrollEndingPointX s"
  "scrollEndingPointY (requestAnimationFrame s) = scrollEndingPointY s"
  "scrollRafId (requestAnimationFrame s) = Some (nextFrame s)"
  "scrollResolve (requestAnimationFrame s) = scrollResolve s"
  "scrollStartingPointX (requestAnimationFrame s) = scrollStartingPointX s"
  "scrollStartingPointY (requestAnimationFrame s) = scrollStartingPointY s"
  "scrollStartTime (requestAnimationFrame s) = scrollStartTime s"
  "isIOsSafari (requestAnimationFrame s) = isIOsSafari s"
  "frames (requestAnimationFrame s) = frames s @ [nextFrame s]"
  "nextFrame (requestAnimationFrame s) = Suc (nextFrame s)"
  "nextPromise (requestAnimationFrame s) = nextPromise s"
  by (simp_all add: requestAnimationFrame_def)

lemma newPromise_simps [simp]:
  "effects (newPromise s) = effects s"
  "scrollContainer (newPromise s) = scrollContainer s"
  "cubicBezierSolver (newPromise s) = cubicBezierSolver s"
  "scrolling (newPromise s) = scrolling s"
  "stopScrollingOnPointerDown (newPromise s) = stopScrollingOnPointerDown s"
  "scrollDistanceX (newPromise s) = scrollDistanceX s"
  "scrollDistanceY (newPromise s) = scrollDistanceY s"
  "scrollDuration (newPromise s) = scrollDuration s"
  "scrollElapsedTime (newPromise s) = scrollElapsedTime s"
  "scrollEndingPointX (newPromise s) = scrollEndingPointX s"
  "scrollEndingPointY (newPromise s) = scrollEndingPointY s"
  "scrollRafId (newPromise s) = scrollRafId s"
  "scrollResolve (newPromise s) = Some (nextPromise s)"
  "scrollStartingPointX (newPromise s) = scrollStartingPointX s"
  "scrollStartingPointY (newPromise s) = scrollStartingPointY s"
  "scrollStartTime (newPromise s) = scrollStartTime s"
  "isIOsSafari (newPromise s) = isIOsSafari s"
  "frames (newPromise s) = frames s"
  "nextFrame (newPromise s) = nextFrame s"
  "nextPromise (newPromise s) = Suc (nextPromise s)"
  by (simp_all add: newPromise_def)

lemma getScrollEventData_simps [simp]:
  "startPoint (getScrollEventData x s) = (scrollStartingPointX s, scrollStartingPointY s)"
  "endPoint (getScrollEventData x s) = (scrollEndingPointX s, scrollEndingPointY s)"
  "duration (getScrollEventData x s) = scrollDuration s"
  "elapsedTime (getScrollEventData x s) = scrollElapsedTime s"
  "interruptedBy (getScrollEventData x s) = x"
  by (simp_all add: getScrollEventData_def)

subsection \<open>\<open>#stopScroll\<close> and the interruption of a scroll\<close>

lemma stopScroll_Inr:
  assumes "stopScroll x s = Inr s'"
  shows "scrollResolve s \<noteq> None"
    and "effects s' = effects s @ [Resolved (the (scrollResolve s)) (getScrollEventData x s),
          Dispatched ''smoothScrollerScrollStop'' (getScrollEventData x s)]"
    and "scrollResolve s' = None" and "nextPromise s' = nextPromise s"
    and "nextFrame s' = nextFrame s"
    and "frames s' = filter (\<lambda>j. Some j \<noteq> scrollRafId s) (frames s)"
    and "scrollRafId s' = scrollRafId s"
    and "scrollElapsedTime s' = NaN" and "scrollDuration s' = NaN" and "scrollStartTime s' = NaN"
    and "cubicBezierSolver s' = cubicBezierSolver s"
    and "isIOsSafari s' = isIOsSafari s"
    and "stopScrollingOnPointerDown s' = stopScrollingOnPointerDown s"
    and "scrollContainer s' = (if isIOsSafari s then (scrollContainer s)\<lparr>overflowHidden := False\<rparr>
                              else scrollContainer s)"
  using assms
  by (auto simp: stopScroll_def Let_def split: option.splits)

lemma stopScroll_Some:
  "scrollResolve s = Some h \<Longrightarrow> \<exists>s'. stopScroll x s = Inr s'"
  by (simp add: stopScroll_def Let_def split: option.splits)

lemma stopScroll_consistent:
  assumes "stopScroll x s = Inr s'" "consistent s"
  shows "consistent s'"
proof -
  note f = stopScroll_Inr [OF assms(1)]
  from assms(2) have "frames s = [] \<or> map Some (frames s) = [scrollRafId s]"
    by (simp add: consistent_def)
  then have "frames s' = []"
    using f(6) by auto
  with f show ?thesis by (simp add: consistent_def)
qed



lemma interruptPrevious_simps [simp]:
  "effects (interruptPrevious s) = effects s @
     (case scrollResolve s of None \<Rightarrow> []
      | Some h \<Rightarrow> [Resolved h (getScrollEventData (Some ''New smooth scroll'') s),
          Dispatched ''smoothScrollerScrollStop'' (getScrollEventData (Some ''New smooth scroll'') s)])"
  "scrollResolve (interruptPrevious s) = None"
  "nextPromise (interruptPrevious s) = nextPromise s"
  "nextFrame (interruptPrevious s) = nextFrame s"
  "cubicBezierSolver (interruptPrevious s) = cubicBezierSolver s"
  "isIOsSafari (interruptPrevious s) = isIOsSafari s"
  "scrollRafId (interruptPrevious s) = scrollRafId s"
  "scrollContainer (interruptPrevious s) =
     (if scrollResolve s \<noteq> None \<and> isIOsSafari s
      then (scrollContainer s)\<lparr>overflowHidden := False\<rparr> else scrollContainer s)"
proof -
  show "scrollResolve (interruptPrevious s) = None"
  proof (cases "scrollResolve s")
    case None then show ?thesis by (simp add: interruptPrevious_def)
  next
    case (Some h)
    from stopScroll_Some [OF this] obtain s' where st: "stopScroll (Some ''New smooth scroll'') s = Inr s'" by blast
    with Some stopScroll_Inr [OF st] show ?thesis by (simp add: interruptPrevious_def)
  qed
next
  show "effects (interruptPrevious s) = effects s @
     (case scrollResolve s of None \<Rightarrow> []
      | Some h \<Rightarrow> [Resolved h (getScrollEventData (Some ''New smooth scroll'') s),
          Dispatched ''smoothScrollerScrollStop'' (getScrollEventData (Some ''New smooth scroll'') s)])"
  proof (cases "scrollResolve s")
    case None then show ?thesis by (simp add: interruptPrevious_def)
  next
    case (Some h)
    from stopScroll_Some [OF this] obtain s' where st: "stopScroll (Some ''New smooth scroll'') s = Inr s'" by blast
    with Some stopScroll_Inr [OF st] show ?thesis by (simp add: interruptPrevious_def)
  qed
next
  have *: "nextPromise (interruptPrevious s) = nextPromise s
    \<and> nextFrame (interruptPrevious s) = nextFrame s
    \<and> cubicBezierSolver (interruptPrevious s) = cubicBezierSolver s
    \<and> isIOsSafari (interruptPrevious s) = isIOsSafari s
    \<and> scrollRafId (interruptPrevious s) = scrollRafId s
    \<and> scrollContainer (interruptPrevious s) =
     (if scrollResolve s \<noteq> None \<and> isIOsSafari s
      then (scrollContainer s)\<lparr>overflowHidden := False\<rparr> else scrollContainer s)"
  proof (cases "scrollResolve s")
    case None then show ?thesis by (simp add: interruptPrevious_def)
  next
    case (Some h)
    from stopScroll_Some [OF this] obtain s' where st: "stopScroll (Some ''New smooth scroll'') s = Inr s'" by blast
    with Some stopScroll_Inr [OF st] show ?thesis by (simp add: interruptPrevious_def)
  qed
  from * show "nextPromise (interruptPrevious s) = nextPromise s" by simp
  from * show "nextFrame (interruptPrevious s) = nextFrame s" by simp
  from * show "cubicBezierSolver (interruptPrevious s) = cubicBezierSolver s" by simp
  from * show "isIOsSafari (interruptPrevious s) = isIOsSafari s" by simp
  from * show "scrollRafId (interruptPrevious s) = scrollRafId s" by simp
  from * show "scrollContainer (interruptPrevious s) =
     (if scrollResolve s \<noteq> None \<and> isIOsSafari s
      then (scrollContainer s)\<lparr>overflowHidden := False\<rparr> else scrollContainer s)" by simp
qed

lemma interruptPrevious_consistent:
  assumes "consistent s"
  shows "frames (interruptPrevious s) = []"
    and "scrollElapsedTime (interruptPrevious s) = NaN"
    and "scrollDuration (interruptPrevious s) = NaN"
proof -
  have "frames (interruptPrevious s) = [] \<and> scrollElapsedTime (interruptPrevious s) = NaN
    \<and> scrollDuration (interruptPrevious s) = NaN"
  proof (cases "scrollResolve s")
    case None with assms show ?thesis by (simp add: interruptPrevious_def consistent_def)
  next
    case (Some h)
    from stopScroll_Some [OF this] obtain s' where st: "stopScroll (Some ''New smooth scroll'') s = Inr s'" by blast
    from stopScroll_consistent [OF st assms] stopScroll_Inr [OF st] Some st show ?thesis
      by (simp add: interruptPrevious_def consistent_def)
  qed
  then show "frames (interruptPrevious s) = []"
    and "scrollElapsedTime (interruptPrevious s) = NaN"
    and "scrollDuration (interruptPrevious s) = NaN" by simp_all
qed

lemma edges_overflow [simp]:
  "rightEdge (c\<lparr>overflowHidden := b\<rparr>) = rightEdge c"
  "bottomEdge (c\<lparr>overflowHidden := b\<rparr>) = bottomEdge c"
  by (simp_all add: rightEdge_def bottomEdge_def)

lemma resolutions_append [simp]: "resolutions (xs @ ys) = resolutions xs @ resolutions ys"
  by (induction xs rule: resolutions.induct) simp_all

lemma consistent_solver [simp]: "consistent (s\<lparr>cubicBezierSolver := v\<rparr>) = consistent s"
  by (simp add: consistent_def)

lemma requestedDistance_simps [simp]:
  "requestedDistanceX (a\<lparr>arg_currentTime := t\<rparr>) s = requestedDistanceX a s"
  "requestedDistanceY (a\<lparr>arg_currentTime := t\<rparr>) s = requestedDistanceY a s"
  "requestedDistanceX a (s\<lparr>cubicBezierSolver := v\<rparr>) = requestedDistanceX a s"
  "requestedDistanceY a (s\<lparr>cubicBezierSolver := v\<rparr>) = requestedDistanceY a s"
  by (simp_all add: requestedDistanceX_def requestedDistanceY_def)

lemma getScrollEventData_solver [simp]:
  "getScrollEventData x (s\<lparr>cubicBezierSolver := v\<rparr>) = getScrollEventData x s"
  by (simp add: getScrollEventData_def)

lemma not_lt_of_ge: "num_ge a b \<Longrightarrow> \<not> num_lt a b"
  by (simp add: num_ge_def num_le_def)

lemma not_le_of_gt: "num_gt a b \<Longrightarrow> \<not> num_le a b"
  by (simp add: num_gt_def num_le_def)

lemma newScroll_noop:
  assumes dx: "num_lt (num_abs (requestedDistanceX a s)) (Fin 1)"
    and dy: "num_lt (num_abs (requestedDistanceY a s)) (Fin 1)"
    and c: "consistent s"
  shows "\<exists>s' d. newScroll a s = Inl (Awaiting (nextPromise s), s')
     \<and> effects s' = effects (interruptPrevious s)
         @ [Resolved (nextPromise s) d, Dispatched ''smoothScrollerScrollStop'' d]
     \<and> interruptedBy d = None \<and> elapsedTime d = NaN \<and> duration d = NaN
     \<and> scrollResolve s' = None \<and> consistent s'"
  using dx dy interruptPrevious_consistent [OF c]
  by (simp add: newScroll_def Let_def stopScroll_def consistent_def
        requestedDistanceX_def requestedDistanceY_def split: option.splits)

lemma newScroll_animating:
  assumes ge: "num_ge (num_abs (requestedDistanceX a s)) (Fin 1)
             \<or> num_ge (num_abs (requestedDistanceY a s)) (Fin 1)"
    and dur: "num_gt (argDuration a) (Fin 0)"
    and c: "consistent s"
  shows "\<exists>s'. newScroll a s = Inl (Awaiting (nextPromise s), s')
     \<and> effects s' = effects (interruptPrevious s)
     \<and> scrollResolve s' = Some (nextPromise s) \<and> nextPromise s' = Suc (nextPromise s)
     \<and> frames s' = [nextFrame s] \<and> scrollRafId s' = Some (nextFrame s)
     \<and> scrollDuration s' = argDuration a
     \<and> scrollDistanceX s' = requestedDistanceX a s
     \<and> scrollDistanceY s' = requestedDistanceY a s
     \<and> cubicBezierSolver s' = cubicBezierSolver s
     \<and> consistent s'"
proof -
  note nle = not_le_of_gt [OF dur]
  from ge show ?thesis
  proof
    assume g: "num_ge (num_abs (requestedDistanceX a s)) (Fin 1)"
    note n = not_lt_of_ge [OF g]
    show ?thesis
      using g n dur nle interruptPrevious_consistent [OF c]
      by (simp add: newScroll_def Let_def consistent_def
          requestedDistanceX_def requestedDistanceY_def)
  next
    assume g: "num_ge (num_abs (requestedDistanceY a s)) (Fin 1)"
    note n = not_lt_of_ge [OF g]
    show ?thesis
      using g n dur nle interruptPrevious_consistent [OF c]
      by (simp add: newScroll_def Let_def consistent_def
          requestedDistanceX_def requestedDistanceY_def)
  qed
qed

lemma request_animating:
  assumes c: "consistent s" and an: "animating a s"
  shows "\<exists>s'. request a s = Some (Awaiting (nextPromise s), s')
     \<and> consistent s' \<and> scrollResolve s' = Some (nextPromise s)
     \<and> nextPromise s' = Suc (nextPromise s)
     \<and> resolutions (effects s') = resolutions (effects s) @
          (case scrollResolve s of None \<Rightarrow> [] | Some h \<Rightarrow> [(h, Some ''New smooth scroll'')])"
proof -
  from an obtain s1 where v: "validated a s = Inr s1"
    by (auto simp: animating_def split: sum.splits)
  note s1 = validated_Inr [OF v]
  define a' where "a' = a\<lparr>arg_currentTime := None\<rparr>"
  have c1: "consistent s1" by (subst s1) (simp add: c)
  have np: "nextPromise s1 = nextPromise s" by (subst s1) simp
  have sr: "scrollResolve s1 = scrollResolve s" by (subst s1) simp
  have ef: "effects s1 = effects s" by (subst s1) simp
  have rd: "requestedDistanceX a s1 = requestedDistanceX a s"
    "requestedDistanceY a s1 = requestedDistanceY a s"
    by (subst s1, simp)+
  have ev: "getScrollEventData x s1 = getScrollEventData x s" for x
    by (subst s1) simp
  from an have ge: "num_ge (num_abs (requestedDistanceX a' s1)) (Fin 1)
             \<or> num_ge (num_abs (requestedDistanceY a' s1)) (Fin 1)"
    and dur: "num_gt (argDuration a') (Fin 0)"
    by (simp_all add: animating_def a'_def rd)
  from newScroll_animating [OF ge dur c1] obtain s' where
    n: "newScroll a' s1 = Inl (Awaiting (nextPromise s1), s')"
    and e: "effects s' = effects (interruptPrevious s1)"
    and r: "scrollResolve s' = Some (nextPromise s1)" "nextPromise s' = Suc (nextPromise s1)"
      "consistent s'"
    by blast
  have "request a s = Some (Awaiting (nextPromise s), s')"
    using v n by (simp add: request_def scroll_def isNaN_def a'_def np)
  moreover have "resolutions (effects s') = resolutions (effects s) @
          (case scrollResolve s of None \<Rightarrow> [] | Some h \<Rightarrow> [(h, Some ''New smooth scroll'')])"
    by (simp add: e ef sr split: option.splits)
  ultimately show ?thesis using r by (simp add: np)
qed

subsection \<open>A call with a timestamp\<close>

lemma getScrollEventData_startTime [simp]:
  "getScrollEventData x (s\<lparr>scrollStartTime := t, scrolling := b\<rparr>) = getScrollEventData x s"
  by (simp add: getScrollEventData_def)

lemma getScrollEventData_emit [simp]:
  "getScrollEventData x (emit e s) = getScrollEventData x s"
  by (simp add: getScrollEventData_def)

lemma frameStart_simps [simp]:
  "effects (frameStart t s) = effects s
     @ (if truthy (scrollStartTime s) then []
        else [Dispatched ''smoothScrollerScrollStart'' (getScrollEventData None s)])
     @ [Dispatched ''smoothScrollerScroll'' (getScrollEventData None s)]"
  "scrollStartTime (frameStart t s) = (if truthy (scrollStartTime s) then scrollStartTime s else t)"
  "scrollElapsedTime (frameStart t s) =
     num_sub t (if truthy (scrollStartTime s) then scrollStartTime s else t)"
  "scrollContainer (frameStart t s) = scrollContainer s"
  "cubicBezierSolver (frameStart t s) = cubicBezierSolver s"
  "stopScrollingOnPointerDown (frameStart t s) = stopScrollingOnPointerDown s"
  "scrollDistanceX (frameStart t s) = scrollDistanceX s"
  "scrollDistanceY (frameStart t s) = scrollDistanceY s"
  "scrollDuration (frameStart t s) = scrollDuration s"
  "scrollEndingPointX (frameStart t s) = scrollEndingPointX s"
  "scrollEndingPointY (frameStart t s) = scrollEndingPointY s"
  "scrollRafId (frameStart t s) = scrollRafId s"
  "scrollResolve (frameStart t s) = scrollResolve s"
  "scrollStartingPointX (frameStart t s) = scrollStartingPointX s"
  "scrollStartingPointY (frameStart t s) = scrollStartingPointY s"
  "isIOsSafari (frameStart t s) = isIOsSafari s"
  "frames (frameStart t s) = frames s"
  "nextFrame (frameStart t s) = nextFrame s"
  "nextPromise (frameStart t s) = nextPromise s"
  by (simp_all add: frameStart_def Let_def)

lemma writeOffsets_simps [simp]:
  "effects (writeOffsets r s) = effects s @ writes r s"
  "scrollEndingPointX (writeOffsets r s) = scrollLeft (scrollContainer (writeOffsets r s))"
  "scrollEndingPointY (writeOffsets r s) = scrollTop (scrollContainer (writeOffsets r s))"
  "scrollStartTime (writeOffsets r s) = scrollStartTime s"
  "scrollElapsedTime (writeOffsets r s) = scrollElapsedTime s"
  "cubicBezierSolver (writeOffsets r s) = cubicBezierSolver s"
  "stopScrollingOnPointerDown (writeOffsets r s) = stopScrollingOnPointerDown s"
  "scrollDistanceX (writeOffsets r s) = scrollDistanceX s"
  "scrollDistanceY (writeOffsets r s) = scrollDistanceY s"
  "scrollDuration (writeOffsets r s) = scrollDuration s"
  "scrollRafId (writeOffsets r s) = scrollRafId s"
  "scrollResolve (writeOffsets r s) = scrollResolve s"
  "scrollStartingPointX (writeOffsets r s) = scrollStartingPointX s"
  "scrollStartingPointY (writeOffsets r s) = scrollStartingPointY s"
  "isIOsSafari (writeOffsets r s) = isIOsSafari s"
  "frames (writeOffsets r s) = frames s"
  "nextFrame (writeOffsets r s) = nextFrame s"
  "nextPromise (writeOffsets r s) = nextPromise s"
  by (simp_all add: writeOffsets_def Let_def writes_def)

lemma frameEnd_again:
  assumes "num_lt ratio (Fin 1)"
  shows "frameEnd ratio r s = (Fulfilled, requestAnimationFrame (writeOffsets r s))"
  using assms by (simp add: frameEnd_def Let_def)

lemma frameEnd_stop:
  assumes "\<not> num_lt ratio (Fin 1)" "num_ge ratio (Fin 1)" "scrollResolve s = Some h"
  shows "\<exists>s'. frameEnd ratio r s = (Fulfilled, s') \<and> stopScroll None (writeOffsets r s) = Inr s'"
proof -
  from stopScroll_Some [of "writeOffsets r s" h None] assms(3)
  obtain s' where "stopScroll None (writeOffsets r s) = Inr s'" by auto
  with assms show ?thesis by (simp add: frameEnd_def Let_def)
qed

lemma frameEnd_idle:
  assumes "\<not> num_lt ratio (Fin 1)" "scrollResolve s = None \<or> \<not> num_ge ratio (Fin 1)"
  shows "snd (frameEnd ratio r s) = writeOffsets r s"
  using assms by (auto simp add: frameEnd_def Let_def stopScroll_def)

text \<open>What a call with a timestamp that returns has done.\<close>

lemma frame_Some:
  assumes "frame t s = Some (out, s')"
  shows "s' = frameStart t s
    \<or> (\<exists>r. frameEnd (elapsedTimeRatio (frameStart t s)) r (frameStart t s) = (out, s'))"
  using assms
  by (auto simp: frame_def Let_def split: option.splits sum.splits)

lemma resolutions_writes [simp]: "resolutions (writes r s) = []"
  by (simp add: writes_def)

lemma num_NaN_simps [simp]:
  "num_sub NaN b = NaN" "num_sub a NaN = NaN" "num_min NaN b = NaN" "num_min a NaN = NaN"
  "\<not> num_le NaN b" "\<not> num_le a NaN" "\<not> num_ge NaN b" "\<not> num_ge a NaN"
  "\<not> num_gt NaN b" "\<not> num_gt a NaN"
  by (cases a; cases b; simp add: num_sub_def num_min_def num_le_def num_ge_def num_gt_def)+

lemma frame_active:
  assumes f: "frame t s = Some (out, s')" and c: "consistent s" and fr: "frames s = []"
    and h: "scrollResolve s = Some h"
  shows "consistent s' \<and> nextPromise s' = nextPromise s
    \<and> ((scrollResolve s' = Some h \<and> resolutions (effects s') = resolutions (effects s))
       \<or> (scrollResolve s' = None
           \<and> resolutions (effects s') = resolutions (effects s) @ [(h, None)]))"
proof -
  define s1 where "s1 = frameStart t s"
  have s1: "scrollResolve s1 = Some h" "frames s1 = []" "nextPromise s1 = nextPromise s"
    "resolutions (effects s1) = resolutions (effects s)"
    by (simp_all add: s1_def h fr)
  from frame_Some [OF f] consider "s' = s1"
    | r where "frameEnd (elapsedTimeRatio s1) r s1 = (out, s')"
    unfolding s1_def by blast
  then show ?thesis
  proof cases
    case 1
    with s1 show ?thesis by (simp add: consistent_def)
  next
    case 2
    define ratio where "ratio = elapsedTimeRatio s1"
    note fe = 2 [folded ratio_def]
    show ?thesis
    proof (cases "num_lt ratio (Fin 1)")
      case True
      from frameEnd_again [OF True, of r s1] fe
      have "s' = requestAnimationFrame (writeOffsets r s1)" by simp
      with s1 show ?thesis by (simp add: consistent_def)
    next
      case False
      show ?thesis
      proof (cases "num_ge ratio (Fin 1)")
        case True
        from frameEnd_stop [OF False True s1(1), of r] fe
        have st: "stopScroll None (writeOffsets r s1) = Inr s'" by auto
        from stopScroll_Inr [OF st] s1 show ?thesis by (simp add: consistent_def)
      next
        case F2: False
        then have "scrollResolve s1 = None \<or> \<not> num_ge ratio (Fin 1)" by simp
        from frameEnd_idle [OF False this, of r] fe have "s' = writeOffsets r s1" by simp
        with s1 show ?thesis by (simp add: consistent_def)
      qed
    qed
  qed
qed

lemma frame_idle_NaN:
  assumes f: "frame NaN s = Some (out, s')" and c: "consistent s"
    and h: "scrollResolve s = None"
  shows "consistent s' \<and> nextPromise s' = nextPromise s \<and> scrollResolve s' = None
    \<and> resolutions (effects s') = resolutions (effects s)"
proof -
  define s1 where "s1 = frameStart NaN s"
  from c h have idle: "scrollElapsedTime s = NaN" "scrollDuration s = NaN" "frames s = []"
    by (simp_all add: consistent_def)
  have s1: "scrollResolve s1 = None" "frames s1 = []" "nextPromise s1 = nextPromise s"
    "resolutions (effects s1) = resolutions (effects s)"
    "scrollElapsedTime s1 = NaN" "scrollDuration s1 = NaN"
    by (simp_all add: s1_def h idle)
  have ratio: "elapsedTimeRatio s1 = NaN"
    by (simp add: elapsedTimeRatio_def s1)
  from frame_Some [OF f] consider "s' = s1"
    | r where "frameEnd (elapsedTimeRatio s1) r s1 = (out, s')"
    unfolding s1_def by blast
  then show ?thesis
  proof cases
    case 1
    with s1 show ?thesis by (simp add: consistent_def)
  next
    case 2
    have "\<not> num_lt NaN (Fin 1)" by simp
    from frameEnd_idle [OF this, of s1 r] 2 s1(1) have "s' = writeOffsets r s1"
      by (simp add: ratio)
    with s1 show ?thesis by (simp add: consistent_def)
  qed
qed

lemma animationFrame_step:
  assumes f: "animationFrame i (Fin t) s = Some (out, s')" and c: "consistent s"
  shows "consistent s' \<and> nextPromise s' = nextPromise s
    \<and> ((scrollResolve s' = scrollResolve s \<and> resolutions (effects s') = resolutions (effects s))
       \<or> (\<exists>h. scrollResolve s = Some h \<and> scrollResolve s' = None
           \<and> resolutions (effects s') = resolutions (effects s) @ [(h, None)]))"
proof (cases "i \<in> set (frames s)")
  case False
  with f c show ?thesis by (simp add: animationFrame_def)
next
  case True
  with c obtain h where h: "scrollResolve s = Some h" and fr: "frames s = [i]"
    by (cases "frames s") (auto simp: consistent_def)
  define s0 where "s0 = s\<lparr>frames := filter (\<lambda>j. j \<noteq> i) (frames s)\<rparr>"
  have s0: "consistent s0" "frames s0 = []" "scrollResolve s0 = Some h"
    "nextPromise s0 = nextPromise s" "effects s0 = effects s"
    by (simp_all add: s0_def consistent_def fr h)
  from f True have "frame (Fin t) s0 = Some (out, s')"
    by (simp add: animationFrame_def scroll_def argCurrentTime_def isNaN_def s0_def)
  from frame_active [OF this s0(1,2,3)] s0 h show ?thesis by auto
qed

subsection \<open>Every state reached is consistent\<close>

lemma neither_le_nor_gt: "\<not> num_le d (Fin 0) \<Longrightarrow> \<not> num_gt d (Fin 0) \<Longrightarrow> d = NaN"
  by (cases d) (auto simp: num_le_def num_gt_def)

lemma newScroll_consistent:
  assumes c: "consistent s"
  shows "newScroll a s = Inl (out, s') \<Longrightarrow> consistent s'"
    and "newScroll a s = Inr s2 \<Longrightarrow> consistent s2 \<and> scrollResolve s2 = None"
  using interruptPrevious_consistent [OF c]
  by (auto simp: newScroll_def Let_def consistent_def stopScroll_def split: if_splits
      dest: neither_le_nor_gt)

lemma newScroll_currentTime [simp]: "newScroll (a\<lparr>arg_currentTime := t\<rparr>) s = newScroll a s"
  by (simp add: newScroll_def Let_def)

lemma scroll_NaN: "argCurrentTime a = NaN \<Longrightarrow> scroll a s = request a s"
  by (simp add: request_def scroll_def isNaN_def split: sum.splits)

lemma request_consistent:
  assumes r: "request a s = Some (out, s')" and c: "consistent s"
  shows "consistent s'"
proof (cases "validated a s")
  case (Inl err)
  with r c show ?thesis by (simp add: request_def scroll_def isNaN_def)
next
  case (Inr s1)
  note s1 = validated_Inr [OF Inr]
  have c1: "consistent s1" by (subst s1) (simp add: c)
  define a' where "a' = a\<lparr>arg_currentTime := None\<rparr>"
  show ?thesis
  proof (cases "newScroll a' s1")
    case (Inl res)
    with r Inr have "res = (out, s')"
      by (simp add: request_def scroll_def isNaN_def a'_def)
    with newScroll_consistent(1) [OF c1, of a' out s'] Inl show ?thesis by simp
  next
    case I2: (Inr s2)
    with r Inr have f: "frame NaN s2 = Some (out, s')"
      by (simp add: request_def scroll_def isNaN_def a'_def)
    from newScroll_consistent(2) [OF c1 I2] frame_idle_NaN [OF f] show ?thesis by simp
  qed
qed

lemma pointerdown_consistent:
  assumes "consistent s"
  shows "consistent (pointerdown s)"
proof (cases "scrollResolve s \<noteq> None \<and> stopScrollingOnPointerDown s = Some True")
  case False
  with assms show ?thesis by (auto simp: pointerdown_def)
next
  case True
  then obtain h where "scrollResolve s = Some h" by auto
  from stopScroll_Some [OF this] obtain s' where
    st: "stopScroll (Some ''Pointer down on scroll container'') s = Inr s'" by blast
  with True stopScroll_consistent [OF st assms] show ?thesis by (simp add: pointerdown_def)
qed

lemma fire_consistent:
  assumes "fire e s = Some s'" and "consistent s"
  shows "consistent s'"
proof (cases e)
  case (Scroll a)
  with assms request_consistent show ?thesis by auto
next
  case (AnimationFrame i t)
  show ?thesis
  proof (cases "i \<in> set (frames s)")
    case False
    with assms AnimationFrame show ?thesis by (auto simp: animationFrame_def)
  next
    case True
    with assms(2) obtain h where h: "scrollResolve s = Some h" and fr: "frames s = [i]"
      by (cases "frames s") (auto simp: consistent_def)
    define s0 where "s0 = s\<lparr>frames := filter (\<lambda>j. j \<noteq> i) (frames s)\<rparr>"
    have s0: "consistent s0" "frames s0 = []" "scrollResolve s0 = Some h"
      by (simp_all add: s0_def consistent_def fr h)
    from assms(1) AnimationFrame True obtain out where
      sc: "scroll \<lparr>arg_x = None, arg_y = None, arg_duration = None, arg_easing = None,
                arg_stopScrollingOnPointerDown = None, arg_currentTime = Some t\<rparr> s0 = Some (out, s')"
      by (auto simp: animationFrame_def s0_def)
    show ?thesis
    proof (cases "t = NaN")
      case False
      with sc have "frame t s0 = Some (out, s')"
        by (simp add: scroll_def argCurrentTime_def isNaN_def)
      from frame_active [OF this s0] show ?thesis by simp
    next
      case True
      with sc have "request \<lparr>arg_x = None, arg_y = None, arg_duration = None, arg_easing = None,
                arg_stopScrollingOnPointerDown = None, arg_currentTime = Some t\<rparr> s0 = Some (out, s')"
        by (simp add: scroll_NaN argCurrentTime_def)
      from request_consistent [OF this s0(1)] show ?thesis .
    qed
  qed
next
  case PointerDown
  with assms pointerdown_consistent show ?thesis by auto
qed

lemma SmoothScroller_consistent: "consistent (SmoothScroller c b)"
  by (simp add: SmoothScroller_def consistent_def)

lemma run_consistent':
  "run es s = Some s' \<Longrightarrow> consistent s \<Longrightarrow> consistent s'"
proof (induction es arbitrary: s)
  case Nil
  then show ?case by simp
next
  case (Cons e es)
  then obtain s1 where f: "fire e s = Some s1" and r: "run es s1 = Some s'"
    by (auto split: option.splits)
  from Cons.IH [OF r fire_consistent [OF f Cons.prems(2)]] show ?case .
qed

lemma run_consistent: "run es (SmoothScroller c b) = Some s \<Longrightarrow> consistent s"
  by (rule run_consistent' [OF _ SmoothScroller_consistent])

subsection \<open>Requests in a row, frames in a row\<close>

lemma upt_shift:
  "map (\<lambda>i. (n + i, v)) [0..<Suc m] = (n, v) # map (\<lambda>i. (Suc n + i, v)) [0..<m]"
proof -
  have "[0..<Suc m] = 0 # map Suc [0..<m]"
    by (simp add: upt_conv_Cons map_Suc_upt del: upt_Suc)
  then show ?thesis by (simp add: comp_def del: upt_Suc)
qed

lemma successive_run:
  assumes "consistent s" and "successive as s"
  shows "\<exists>s'. run (map Scroll as) s = Some s' \<and> consistent s'
     \<and> nextPromise s' = nextPromise s + length as
     \<and> resolutions (effects s') = resolutions (effects s) @
          (if as = [] then []
           else (case scrollResolve s of None \<Rightarrow> [] | Some h \<Rightarrow> [(h, Some ''New smooth scroll'')])
             @ map (\<lambda>i. (nextPromise s + i, Some ''New smooth scroll'')) [0..<length as - 1])
     \<and> (as \<noteq> [] \<longrightarrow> scrollResolve s' = Some (nextPromise s + length as - 1))"
  using assms
proof (induction as arbitrary: s)
  case Nil
  then show ?case by simp
next
  case (Cons a as)
  from Cons.prems(2) have an: "animating a s" by simp
  from request_animating [OF Cons.prems(1) an] obtain s1 where
    r: "request a s = Some (Awaiting (nextPromise s), s1)"
    and c1: "consistent s1" and sr1: "scrollResolve s1 = Some (nextPromise s)"
    and np1: "nextPromise s1 = Suc (nextPromise s)"
    and res1: "resolutions (effects s1) = resolutions (effects s) @
          (case scrollResolve s of None \<Rightarrow> [] | Some h \<Rightarrow> [(h, Some ''New smooth scroll'')])"
    by blast
  from Cons.prems(2) r have su: "successive as s1" by simp
  from Cons.IH [OF c1 su] obtain s' where
    run: "run (map Scroll as) s1 = Some s'" and c': "consistent s'"
    and np': "nextPromise s' = nextPromise s1 + length as"
    and res': "resolutions (effects s') = resolutions (effects s1) @
          (if as = [] then []
           else (case scrollResolve s1 of None \<Rightarrow> [] | Some h \<Rightarrow> [(h, Some ''New smooth scroll'')])
             @ map (\<lambda>i. (nextPromise s1 + i, Some ''New smooth scroll'')) [0..<length as - 1])"
    and sr': "as \<noteq> [] \<longrightarrow> scrollResolve s' = Some (nextPromise s1 + length as - 1)"
    by blast
  have run': "run (map Scroll (a # as)) s = Some s'"
    using r run by simp
  have "resolutions (effects s') = resolutions (effects s) @
          (case scrollResolve s of None \<Rightarrow> [] | Some h \<Rightarrow> [(h, Some ''New smooth scroll'')])
             @ map (\<lambda>i. (nextPromise s + i, Some ''New smooth scroll'')) [0..<length as]"
  proof (cases as)
    case Nil
    with res' res1 show ?thesis by simp
  next
    case (Cons b bs)
    then have "length as = Suc (length bs)" by simp
    with res' res1 Cons sr1 np1 show ?thesis
      by (simp add: upt_shift del: upt_Suc)
  qed
  moreover have "scrollResolve s' = Some (nextPromise s + length (a # as) - 1)"
  proof (cases as)
    case Nil
    with run sr1 show ?thesis by simp
  next
    case (Cons b bs)
    with sr' np1 show ?thesis by simp
  qed
  ultimately show ?case using run' c' np' np1 by simp
qed

lemma frames_run_idle:
  assumes "run (map (\<lambda>(i, t). AnimationFrame i (Fin t)) its) s = Some s'"
    and "consistent s" and "scrollResolve s = None"
  shows "s' = s"
  using assms
proof (induction its arbitrary: s)
  case Nil
  then show ?case by simp
next
  case (Cons it its)
  obtain i t where it: "it = (i, t)" by (cases it)
  from Cons.prems(2,3) have "frames s = []" by (simp add: consistent_def)
  then have "animationFrame i (Fin t) s = Some (Fulfilled, s)" by (simp add: animationFrame_def)
  with Cons.prems(1) it have "run (map (\<lambda>(i, t). AnimationFrame i (Fin t)) its) s = Some s'"
    by simp
  from Cons.IH [OF this Cons.prems(2,3)] show ?case .
qed

lemma frames_run:
  assumes "run (map (\<lambda>(i, t). AnimationFrame i (Fin t)) its) s = Some s'"
    and "consistent s" and "scrollResolve s = Some h"
  shows "(scrollResolve s' = Some h \<and> resolutions (effects s') = resolutions (effects s))
       \<or> (scrollResolve s' = None
           \<and> resolutions (effects s') = resolutions (effects s) @ [(h, None)])"
  using assms
proof (induction its arbitrary: s)
  case Nil
  then show ?case by simp
next
  case (Cons it its)
  obtain i t where it: "it = (i, t)" by (cases it)
  from Cons.prems(1) it obtain out s1 where
    f: "animationFrame i (Fin t) s = Some (out, s1)"
    and r: "run (map (\<lambda>(i, t). AnimationFrame i (Fin t)) its) s1 = Some s'"
    by (auto split: option.splits)
  from animationFrame_step [OF f Cons.prems(2)] Cons.prems(3)
  have c1: "consistent s1"
    and alt: "(scrollResolve s1 = Some h \<and> resolutions (effects s1) = resolutions (effects s))
       \<or> (scrollResolve s1 = None
           \<and> resolutions (effects s1) = resolutions (effects s) @ [(h, None)])"
    by auto
  from alt show ?case
  proof
    assume a: "scrollResolve s1 = Some h \<and> resolutions (effects s1) = resolutions (effects s)"
    with Cons.IH [OF r c1] show ?thesis by simp
  next
    assume a: "scrollResolve s1 = None
           \<and> resolutions (effects s1) = resolutions (effects s) @ [(h, None)]"
    with frames_run_idle [OF r c1] show ?thesis by simp
  qed
qed

subsection \<open>One animation frame\<close>

lemma writes_frameStart [simp]: "writes r (frameStart t s) = writes r s"
  by (simp add: writes_def)

lemma elapsedTimeRatio_frameStart:
  "elapsedTimeRatio (frameStart t s) =
     num_min (num_div (num_sub t (if truthy (scrollStartTime s) then scrollStartTime s else t))
                (scrollDuration s)) (Fin 1)"
  by (simp add: elapsedTimeRatio_def)

lemma num_min_ge_1: "num_ge x (Fin 1) \<Longrightarrow> num_min x (Fin 1) = Fin 1"
  by (cases x) (auto simp: num_min_def num_ge_def num_le_def)

lemma solve_Inr_range:
  assumes "solve sv x e = Some (Inr r)"
  shows "num_le (Fin 0) x \<and> num_le x (Fin 1)"
  using assms
  by (auto simp: solve_def solveCurveX_def validateArgument_def split: option.splits if_splits)

lemma in_range_cases: "num_le (Fin 0) x \<Longrightarrow> num_le x (Fin 1) \<Longrightarrow> num_lt x (Fin 1) \<or> x = Fin 1"
  by (cases x) (auto simp: num_le_def)

lemma writeOffsets_container:
  "scrollLeft (scrollContainer (writeOffsets r s)) =
     (if truthy (scrollDistanceX s)
      then num_add (scrollStartingPointX s) (num_mul r (scrollDistanceX s))
      else scrollLeft (scrollContainer s))"
  "scrollTop (scrollContainer (writeOffsets r s)) =
     (if truthy (scrollDistanceY s)
      then num_add (scrollStartingPointY s) (num_mul r (scrollDistanceY s))
      else scrollTop (scrollContainer s))"
  by (simp_all add: writeOffsets_def Let_def)

text \<open>Every effect of a call with a timestamp that returns: the start of the scroll
  when the start time is falsy, the frame sample, then nothing more (the call has
  thrown) or the offsets written, and after them the stop when the scroll stops.\<close>

lemma frame_effects:
  assumes "frame t s = Some (out, s')"
  shows "\<exists>tail. effects s' = effects s
      @ (if truthy (scrollStartTime s) then []
         else [Dispatched ''smoothScrollerScrollStart'' (getScrollEventData None s)])
      @ [Dispatched ''smoothScrollerScroll'' (getScrollEventData None s)] @ tail
    \<and> (tail = [] \<or> (\<exists>r. tail = writes r s
          \<or> (\<exists>h d. tail = writes r s @ [Resolved h d, Dispatched ''smoothScrollerScrollStop'' d])))"
proof -
  define s1 where "s1 = frameStart t s"
  from frame_Some [OF assms] consider "s' = s1"
    | r where "frameEnd (elapsedTimeRatio s1) r s1 = (out, s')"
    unfolding s1_def by blast
  then show ?thesis
  proof cases
    case 1
    then show ?thesis by (simp add: s1_def)
  next
    case 2
    define s3 where "s3 = writeOffsets r s1"
    have e3: "effects s3 = effects s1 @ writes r s" by (simp add: s3_def s1_def)
    from 2 consider "s' = requestAnimationFrame s3" | "s' = s3"
      | s4 where "stopScroll None s3 = Inr s4" "s' = s4"
      by (auto simp: frameEnd_def Let_def s3_def split: if_splits sum.splits)
    then show ?thesis
    proof cases
      case 1
      with e3 show ?thesis by (simp add: s1_def) blast
    next
      case 2
      with e3 show ?thesis by (simp add: s1_def) blast
    next
      case 3
      from stopScroll_Inr(2) [OF 3(1)] 3(2) e3 show ?thesis by (simp add: s1_def) blast
    qed
  qed
qed

text \<open>A call with a timestamp, when the solver returns the value \<open>r\<close>, while a scroll is
  awaited.\<close>

lemma frame_tick:
  assumes sv: "cubicBezierSolver s = Some sv"
    and so: "solve sv (elapsedTimeRatio (frameStart t s))
               (num_div (Fin 1) (num_mul (Fin 200) (scrollDuration s))) = Some (Inr r)"
    and h: "scrollResolve s = Some h"
  shows "\<exists>s' d. frame t s = Some (Fulfilled, s')
    \<and> effects s' = effects s
        @ (if truthy (scrollStartTime s) then []
           else [Dispatched ''smoothScrollerScrollStart'' (getScrollEventData None s)])
        @ [Dispatched ''smoothScrollerScroll'' (getScrollEventData None s)]
        @ writes r s
        @ (if num_lt (elapsedTimeRatio (frameStart t s)) (Fin 1) then []
           else [Resolved h d, Dispatched ''smoothScrollerScrollStop'' d])
    \<and> interruptedBy d = None
    \<and> elapsedTime d = num_sub t (if truthy (scrollStartTime s) then scrollStartTime s else t)
    \<and> scrollResolve s' =
        (if num_lt (elapsedTimeRatio (frameStart t s)) (Fin 1) then Some h else None)
    \<and> frames s' =
        (if num_lt (elapsedTimeRatio (frameStart t s)) (Fin 1) then frames s @ [nextFrame s]
         else filter (\<lambda>j. Some j \<noteq> scrollRafId s) (frames s))
    \<and> nextPromise s' = nextPromise s
    \<and> endPoint d = (scrollLeft (scrollContainer s'), scrollTop (scrollContainer s'))
    \<and> scrollLeft (scrollContainer s') =
        (if truthy (scrollDistanceX s)
         then num_add (scrollStartingPointX s) (num_mul r (scrollDistanceX s))
         else scrollLeft (scrollContainer s))
    \<and> scrollTop (scrollContainer s') =
        (if truthy (scrollDistanceY s)
         then num_add (scrollStartingPointY s) (num_mul r (scrollDistanceY s))
         else scrollTop (scrollContainer s))
    \<and> (num_lt (elapsedTimeRatio (frameStart t s)) (Fin 1) \<longrightarrow>
         scrollRafId s' = Some (nextFrame s)
         \<and> scrollStartTime s' = (if truthy (scrollStartTime s) then scrollStartTime s else t)
         \<and> scrollDistanceX s' = scrollDistanceX s \<and> scrollDistanceY s' = scrollDistanceY s
         \<and> scrollDuration s' = scrollDuration s
         \<and> cubicBezierSolver s' = cubicBezierSolver s
         \<and> scrollEndingPointX s' = scrollLeft (scrollContainer s')
         \<and> scrollEndingPointY s' = scrollTop (scrollContainer s')
         \<and> scrollElapsedTime s'
             = num_sub t (if truthy (scrollStartTime s) then scrollStartTime s else t))"
proof -
  define s1 where "s1 = frameStart t s"
  define ratio where "ratio = elapsedTimeRatio s1"
  define s3 where "s3 = writeOffsets r s1"
  have f: "frame t s = Some (frameEnd ratio r s1)"
    using sv so by (simp add: frame_def Let_def s1_def ratio_def)
  from solve_Inr_range [OF so] have rg: "num_lt ratio (Fin 1) \<or> ratio = Fin 1"
    unfolding ratio_def s1_def by (simp add: in_range_cases)
  have e3: "effects s3 = effects s
        @ (if truthy (scrollStartTime s) then []
           else [Dispatched ''smoothScrollerScrollStart'' (getScrollEventData None s)])
        @ [Dispatched ''smoothScrollerScroll'' (getScrollEventData None s)]
        @ writes r s"
    by (simp add: s3_def s1_def)
  have c3: "scrollLeft (scrollContainer s3) =
        (if truthy (scrollDistanceX s)
         then num_add (scrollStartingPointX s) (num_mul r (scrollDistanceX s))
         else scrollLeft (scrollContainer s))"
    "scrollTop (scrollContainer s3) =
        (if truthy (scrollDistanceY s)
         then num_add (scrollStartingPointY s) (num_mul r (scrollDistanceY s))
         else scrollTop (scrollContainer s))"
    by (simp_all add: s3_def s1_def writeOffsets_container)
  have d3: "interruptedBy (getScrollEventData None s3) = None"
    "elapsedTime (getScrollEventData None s3)
       = num_sub t (if truthy (scrollStartTime s) then scrollStartTime s else t)"
    "endPoint (getScrollEventData None s3)
       = (scrollLeft (scrollContainer s3), scrollTop (scrollContainer s3))"
    by (simp_all add: s3_def s1_def)
  from rg show ?thesis
  proof
    assume lt: "num_lt ratio (Fin 1)"
    define s4 where "s4 = requestAnimationFrame s3"
    from frameEnd_again [OF lt, of r s1] f
    have "frame t s = Some (Fulfilled, s4)" by (simp add: s3_def s4_def)
    moreover have "scrollContainer s4 = scrollContainer s3" "effects s4 = effects s3"
      "scrollResolve s4 = Some h" "frames s4 = frames s @ [nextFrame s]"
      "nextPromise s4 = nextPromise s" "scrollRafId s4 = Some (nextFrame s)"
      "scrollStartTime s4 = (if truthy (scrollStartTime s) then scrollStartTime s else t)"
      "scrollDistanceX s4 = scrollDistanceX s" "scrollDistanceY s4 = scrollDistanceY s"
      "scrollDuration s4 = scrollDuration s" "cubicBezierSolver s4 = cubicBezierSolver s"
      "scrollEndingPointX s4 = scrollLeft (scrollContainer s3)"
      "scrollEndingPointY s4 = scrollTop (scrollContainer s3)"
      "scrollElapsedTime s4
         = num_sub t (if truthy (scrollStartTime s) then scrollStartTime s else t)"
      by (simp_all add: s4_def s3_def s1_def h)
    ultimately show ?thesis
      using lt e3 d3 c3
      unfolding ratio_def [symmetric] s1_def [symmetric]
      by (intro exI [of _ s4] exI [of _ "getScrollEventData None s3"]) simp
  next
    assume one: "ratio = Fin 1"
    then have n: "\<not> num_lt ratio (Fin 1)" and g: "num_ge ratio (Fin 1)"
      by (simp_all add: num_ge_def)
    have h3: "scrollResolve s3 = Some h" by (simp add: s3_def s1_def h)
    from stopScroll_Some [OF h3, of None] obtain s4 where st: "stopScroll None s3 = Inr s4"
      by blast
    have fe: "frameEnd ratio r s1 = (Fulfilled, s4)"
      using n g st by (simp add: frameEnd_def Let_def s3_def)
    note s4 = stopScroll_Inr [OF st]
    have "frame t s = Some (Fulfilled, s4)" using f fe by simp
    moreover have "effects s4 = effects s3 @ [Resolved h (getScrollEventData None s3),
          Dispatched ''smoothScrollerScrollStop'' (getScrollEventData None s3)]"
      using s4(2) h3 by simp
    moreover have "frames s4 = filter (\<lambda>j. Some j \<noteq> scrollRafId s) (frames s)"
      using s4(6) by (simp add: s3_def s1_def)
    moreover have "nextPromise s4 = nextPromise s" using s4(4) by (simp add: s3_def s1_def)
    moreover have "scrollLeft (scrollContainer s4) = scrollLeft (scrollContainer s3)"
      "scrollTop (scrollContainer s4) = scrollTop (scrollContainer s3)"
      using s4(14) by simp_all
    ultimately show ?thesis
      using n e3 s4(3) d3 c3
      unfolding ratio_def [symmetric] s1_def [symmetric]
      by (intro exI [of _ s4] exI [of _ "getScrollEventData None s3"]) simp
  qed
qed

text \<open>The same of the animation frame that the instance has requested.\<close>

lemma animationFrame_tick:
  assumes c: "consistent s" and i: "i \<in> set (frames s)"
    and sv: "cubicBezierSolver s = Some sv"
    and so: "solve sv (elapsedTimeRatio (frameStart (Fin t) s))
               (num_div (Fin 1) (num_mul (Fin 200) (scrollDuration s))) = Some (Inr r)"
    and h: "scrollResolve s = Some h"
  shows "\<exists>s' d. animationFrame i (Fin t) s = Some (Fulfilled, s')
    \<and> effects s' = effects s
        @ (if truthy (scrollStartTime s) then []
           else [Dispatched ''smoothScrollerScrollStart'' (getScrollEventData None s)])
        @ [Dispatched ''smoothScrollerScroll'' (getScrollEventData None s)]
        @ writes r s
        @ (if num_lt (elapsedTimeRatio (frameStart (Fin t) s)) (Fin 1) then []
           else [Resolved h d, Dispatched ''smoothScrollerScrollStop'' d])
    \<and> interruptedBy d = None
    \<and> elapsedTime d
        = num_sub (Fin t) (if truthy (scrollStartTime s) then scrollStartTime s else Fin t)
    \<and> scrollResolve s' =
        (if num_lt (elapsedTimeRatio (frameStart (Fin t) s)) (Fin 1) then Some h else None)
    \<and> frames s' =
        (if num_lt (elapsedTimeRatio (frameStart (Fin t) s)) (Fin 1) then [nextFrame s] else [])
    \<and> nextPromise s' = nextPromise s
    \<and> consistent s'
    \<and> endPoint d = (scrollLeft (scrollContainer s'), scrollTop (scrollContainer s'))
    \<and> scrollLeft (scrollContainer s') =
        (if truthy (scrollDistanceX s)
         then num_add (scrollStartingPointX s) (num_mul r (scrollDistanceX s))
         else scrollLeft (scrollContainer s))
    \<and> scrollTop (scrollContainer s') =
        (if truthy (scrollDistanceY s)
         then num_add (scrollStartingPointY s) (num_mul r (scrollDistanceY s))
         else scrollTop (scrollContainer s))
    \<and> (num_lt (elapsedTimeRatio (frameStart (Fin t) s)) (Fin 1) \<longrightarrow>
         scrollRafId s' = Some (nextFrame s)
         \<and> scrollStartTime s'
             = (if truthy (scrollStartTime s) then scrollStartTime s else Fin t)
         \<and> scrollDistanceX s' = scrollDistanceX s \<and> scrollDistanceY s' = scrollDistanceY s
         \<and> scrollDuration s' = scrollDuration s
         \<and> cubicBezierSolver s' = cubicBezierSolver s
         \<and> scrollEndingPointX s' = scrollLeft (scrollContainer s')
         \<and> scrollEndingPointY s' = scrollTop (scrollContainer s')
         \<and> scrollElapsedTime s'
             = num_sub (Fin t) (if truthy (scrollStartTime s) then scrollStartTime s else Fin t))"
proof -
  define s0 where "s0 = s\<lparr>frames := filter (\<lambda>j. j \<noteq> i) (frames s)\<rparr>"
  from c i have fr: "frames s = [i]"
    by (cases "frames s") (auto simp: consistent_def)
  have s0: "frames s0 = []" "scrollResolve s0 = Some h" "cubicBezierSolver s0 = Some sv"
    "nextPromise s0 = nextPromise s" "effects s0 = effects s" "nextFrame s0 = nextFrame s"
    "scrollStartTime s0 = scrollStartTime s" "scrollDuration s0 = scrollDuration s"
    "scrollDistanceX s0 = scrollDistanceX s" "scrollDistanceY s0 = scrollDistanceY s"
    "getScrollEventData None s0 = getScrollEventData None s" "writes r s0 = writes r s"
    "scrollStartingPointX s0 = scrollStartingPointX s"
    "scrollStartingPointY s0 = scrollStartingPointY s"
    "scrollContainer s0 = scrollContainer s"
    by (simp_all add: s0_def fr h sv getScrollEventData_def writes_def)
  have ra: "elapsedTimeRatio (frameStart (Fin t) s0) = elapsedTimeRatio (frameStart (Fin t) s)"
    by (simp add: elapsedTimeRatio_frameStart s0)
  have so0: "solve sv (elapsedTimeRatio (frameStart (Fin t) s0))
               (num_div (Fin 1) (num_mul (Fin 200) (scrollDuration s0))) = Some (Inr r)"
    using so by (simp add: ra s0)
  have af: "animationFrame i (Fin t) s = frame (Fin t) s0"
    using i by (simp add: animationFrame_def scroll_def argCurrentTime_def isNaN_def s0_def)
  from frame_tick [OF s0(3) so0 s0(2)] obtain s' d where
    f: "frame (Fin t) s0 = Some (Fulfilled, s')"
    and rest: "effects s' = effects s0
        @ (if truthy (scrollStartTime s0) then []
           else [Dispatched ''smoothScrollerScrollStart'' (getScrollEventData None s0)])
        @ [Dispatched ''smoothScrollerScroll'' (getScrollEventData None s0)]
        @ writes r s0
        @ (if num_lt (elapsedTimeRatio (frameStart (Fin t) s0)) (Fin 1) then []
           else [Resolved h d, Dispatched ''smoothScrollerScrollStop'' d])"
      "interruptedBy d = None"
      "elapsedTime d
        = num_sub (Fin t) (if truthy (scrollStartTime s0) then scrollStartTime s0 else Fin t)"
      "scrollResolve s' =
        (if num_lt (elapsedTimeRatio (frameStart (Fin t) s0)) (Fin 1) then Some h else None)"
      "frames s' =
        (if num_lt (elapsedTimeRatio (frameStart (Fin t) s0)) (Fin 1)
         then frames s0 @ [nextFrame s0]
         else filter (\<lambda>j. Some j \<noteq> scrollRafId s0) (frames s0))"
      "nextPromise s' = nextPromise s0"
      "endPoint d = (scrollLeft (scrollContainer s'), scrollTop (scrollContainer s'))"
      "scrollLeft (scrollContainer s') =
        (if truthy (scrollDistanceX s0)
         then num_add (scrollStartingPointX s0) (num_mul r (scrollDistanceX s0))
         else scrollLeft (scrollContainer s0))"
      "scrollTop (scrollContainer s') =
        (if truthy (scrollDistanceY s0)
         then num_add (scrollStartingPointY s0) (num_mul r (scrollDistanceY s0))
         else scrollTop (scrollContainer s0))"
      "num_lt (elapsedTimeRatio (frameStart (Fin t) s0)) (Fin 1) \<longrightarrow>
         scrollRafId s' = Some (nextFrame s0)
         \<and> scrollStartTime s'
             = (if truthy (scrollStartTime s0) then scrollStartTime s0 else Fin t)
         \<and> scrollDistanceX s' = scrollDistanceX s0 \<and> scrollDistanceY s' = scrollDistanceY s0
         \<and> scrollDuration s' = scrollDuration s0
         \<and> cubicBezierSolver s' = cubicBezierSolver s0
         \<and> scrollEndingPointX s' = scrollLeft (scrollContainer s')
         \<and> scrollEndingPointY s' = scrollTop (scrollContainer s')
         \<and> scrollElapsedTime s'
             = num_sub (Fin t) (if truthy (scrollStartTime s0) then scrollStartTime s0 else Fin t)"
    by blast
  have c0: "consistent s0" by (simp add: consistent_def s0)
  from frame_active [OF f c0 s0(1,2)] have c': "consistent s'" by simp
  show ?thesis
    using f rest c' sv unfolding ra s0 af
    by (intro exI [of _ s'] exI [of _ d]) simp
qed

lemma isolated_resolutions [simp]:
  "resolutions [Dispatched n d] = []"
  "resolutions (Dispatched n d # es) = resolutions es"
  "resolutions (Resolved h d # es) = (h, interruptedBy d) # resolutions es"
  by simp_all

text \<open>The animation frame that finds the elapsed time at the duration or beyond stops
  the scroll and resolves its promise, when the solver returns a value at 1.\<close>

lemma animationFrame_completes:
  assumes c: "consistent s" and i: "i \<in> set (frames s)"
    and h: "scrollResolve s = Some h"
    and st: "truthy (scrollStartTime s)"
    and sv: "cubicBezierSolver s = Some sv"
    and ge: "num_ge (num_div (num_sub (Fin t) (scrollStartTime s)) (scrollDuration s)) (Fin 1)"
    and so: "solve sv (Fin 1) (num_div (Fin 1) (num_mul (Fin 200) (scrollDuration s)))
               = Some (Inr r)"
  shows "\<exists>s'. animationFrame i (Fin t) s = Some (Fulfilled, s')
    \<and> scrollResolve s' = None \<and> frames s' = []
    \<and> nextPromise s' = nextPromise s
    \<and> resolutions (effects s') = resolutions (effects s) @ [(h, None)]"
proof -
  have ra: "elapsedTimeRatio (frameStart (Fin t) s) = Fin 1"
    using st ge by (simp add: elapsedTimeRatio_frameStart num_min_ge_1)
  from so have so': "solve sv (elapsedTimeRatio (frameStart (Fin t) s))
               (num_div (Fin 1) (num_mul (Fin 200) (scrollDuration s))) = Some (Inr r)"
    by (simp add: ra)
  from animationFrame_tick [OF c i sv so' h] show ?thesis
    by (auto simp: ra)
qed

lemma filter_isWrite_writes [simp]: "filter isWrite (writes r s) = writes r s"
  by (simp add: writes_def)

lemma writes_zero:
  "scrollDistanceX s = Fin 0 \<Longrightarrow> SetScrollLeft v \<notin> set (writes r s)"
  "scrollDistanceY s = Fin 0 \<Longrightarrow> SetScrollTop v \<notin> set (writes r s)"
  "ScrollTo u v \<notin> set (writes r s)"
  by (simp_all add: writes_def truthy_def)

text \<open>The distances stay as they are while the scroll is awaited.\<close>

lemma frame_distances:
  assumes "frame t s = Some (out, s')" and "scrollResolve s' \<noteq> None"
  shows "scrollDistanceX s' = scrollDistanceX s \<and> scrollDistanceY s' = scrollDistanceY s"
proof -
  define s1 where "s1 = frameStart t s"
  from frame_Some [OF assms(1)] consider "s' = s1"
    | r where "frameEnd (elapsedTimeRatio s1) r s1 = (out, s')"
    unfolding s1_def by blast
  then show ?thesis
  proof cases
    case 1
    then show ?thesis by (simp add: s1_def)
  next
    case 2
    define s3 where "s3 = writeOffsets r s1"
    from 2 consider "s' = requestAnimationFrame s3" | "s' = s3"
      | s4 where "stopScroll None s3 = Inr s4" "s' = s4"
      by (auto simp: frameEnd_def Let_def s3_def split: if_splits sum.splits)
    then show ?thesis
    proof cases
      case 1
      then show ?thesis by (simp add: s3_def s1_def)
    next
      case 2
      then show ?thesis by (simp add: s3_def s1_def)
    next
      case 3
      from stopScroll_Inr(3) [OF 3(1)] 3(2) assms(2) show ?thesis by simp
    qed
  qed
qed

lemma successive_requests:
  assumes "consistent s" and "successive as s"
  shows "\<exists>s'. requests as s = Some (map (\<lambda>i. Awaiting (nextPromise s + i)) [0..<length as], s')
     \<and> run (map Scroll as) s = Some s'"
  using assms
proof (induction as arbitrary: s)
  case Nil
  then show ?case by simp
next
  case (Cons a as)
  from Cons.prems(2) have an: "animating a s" by simp
  from request_animating [OF Cons.prems(1) an] obtain s1 where
    r: "request a s = Some (Awaiting (nextPromise s), s1)"
    and c1: "consistent s1" and np1: "nextPromise s1 = Suc (nextPromise s)"
    by blast
  from Cons.prems(2) r have su: "successive as s1" by simp
  from Cons.IH [OF c1 su] obtain s' where
    rs: "requests as s1 = Some (map (\<lambda>i. Awaiting (nextPromise s1 + i)) [0..<length as], s')"
    and run: "run (map Scroll as) s1 = Some s'"
    by blast
  have "map (\<lambda>i. Awaiting (nextPromise s + i)) [0..<length (a # as)]
      = Awaiting (nextPromise s) # map (\<lambda>i. Awaiting (nextPromise s1 + i)) [0..<length as]"
    by (simp add: map_upt_Suc np1 del: upt_Suc)
  with r rs run show ?case by simp
qed

subsection \<open>A request that moves the container\<close>

lemma filter_isWrite_interrupt [simp]:
  "filter isWrite (effects (interruptPrevious s)) = filter isWrite (effects s)"
  by (simp split: option.splits)

lemma newScroll_started:
  assumes ge: "num_ge (num_abs (requestedDistanceX a s)) (Fin 1)
             \<or> num_ge (num_abs (requestedDistanceY a s)) (Fin 1)"
    and dur: "num_gt (argDuration a) (Fin 0)"
    and c: "consistent s"
  shows "\<exists>s'. newScroll a s = Inl (Awaiting (nextPromise s), s')
     \<and> effects s' = effects (interruptPrevious s)
     \<and> scrollResolve s' = Some (nextPromise s)
     \<and> scrollStartingPointX s' = scrollLeft (scrollContainer s)
     \<and> scrollStartingPointY s' = scrollTop (scrollContainer s)
     \<and> scrollDistanceX s' = num_sub (limitCorrected (argX a s) (rightEdge (scrollContainer s)))
                                (scrollLeft (scrollContainer s))
     \<and> scrollDistanceY s' = num_sub (limitCorrected (argY a s) (bottomEdge (scrollContainer s)))
                                (scrollTop (scrollContainer s))"
proof -
  note nle = not_le_of_gt [OF dur]
  from ge show ?thesis
  proof
    assume g: "num_ge (num_abs (requestedDistanceX a s)) (Fin 1)"
    note n = not_lt_of_ge [OF g]
    show ?thesis
      using g n dur nle
      by (simp add: newScroll_def Let_def requestedDistanceX_def requestedDistanceY_def)
  next
    assume g: "num_ge (num_abs (requestedDistanceY a s)) (Fin 1)"
    note n = not_lt_of_ge [OF g]
    show ?thesis
      using g n dur nle
      by (simp add: newScroll_def Let_def requestedDistanceX_def requestedDistanceY_def)
  qed
qed

lemma newScroll_jump:
  assumes ge: "num_ge (num_abs (requestedDistanceX a s)) (Fin 1)
             \<or> num_ge (num_abs (requestedDistanceY a s)) (Fin 1)"
    and dur: "num_le (argDuration a) (Fin 0)"
  shows "\<exists>s' d. newScroll a s = Inl (Awaiting (nextPromise s), s')
     \<and> effects s' = effects (interruptPrevious s)
         @ [ScrollTo (limitCorrected (argX a s) (rightEdge (scrollContainer s)))
              (limitCorrected (argY a s) (bottomEdge (scrollContainer s))),
            Resolved (nextPromise s) d, Dispatched ''smoothScrollerScrollStop'' d]
     \<and> interruptedBy d = None
     \<and> scrollResolve s' = None
     \<and> scrollLeft (scrollContainer s') = limitCorrected (argX a s) (rightEdge (scrollContainer s))
     \<and> scrollTop (scrollContainer s') = limitCorrected (argY a s) (bottomEdge (scrollContainer s))"
proof -
  from ge show ?thesis
  proof
    assume g: "num_ge (num_abs (requestedDistanceX a s)) (Fin 1)"
    note n = not_lt_of_ge [OF g]
    show ?thesis
      using g n dur
      by (simp add: newScroll_def Let_def stopScroll_def
          requestedDistanceX_def requestedDistanceY_def split: option.splits)
  next
    assume g: "num_ge (num_abs (requestedDistanceY a s)) (Fin 1)"
    note n = not_lt_of_ge [OF g]
    show ?thesis
      using g n dur
      by (simp add: newScroll_def Let_def stopScroll_def
          requestedDistanceX_def requestedDistanceY_def split: option.splits)
  qed
qed

section \<open>Evaluation of the examples\<close>

lemmas num_eval = num_sub_def num_gt_def num_ge_def num_le_def num_eq_def num_min_def
  truthy_def isNaN_def lit_def round64_eval

lemma limit_value: "num_floor (num_div MAX_SAFE_INTEGER (Fin 6)) = Fin 1501199875790165"
  by (simp add: MAX_SAFE_INTEGER_def round64_eval)

lemmas solver_eval = CubicBezierSolver_def controlPointValidator_def validateArgument_def
  yLimiter_def limit_value coefficients_def controlPointsMatchCurrentControlPoints_def
  easingKeywordMap_def

lemmas scroller_eval = request_def scroll_def validated_def chooseSolver_def lookupEasing_def
  newScroll_def interruptPrevious_def stopScroll_def setOverflowHidden_def newPromise_def
  requestAnimationFrame_def cancelAnimationFrame_def emit_def getScrollEventData_def
  limitCorrected_def rightEdge_def bottomEdge_def argX_def argY_def argDuration_def
  argEasing_def argStopScrollingOnPointerDown_def argCurrentTime_def
  requestedDistanceX_def requestedDistanceY_def animating_def
  SmoothScroller_def Let_def

lemmas example_defs = fresh_def page_def noArgs_def toBottom_def toMiddle_def negativeDuration_def
  toFifty_def narrow_def unknownKeyword_def badControlPoints_def

lemma newton_step:
  "i < 8 \<Longrightarrow> newton s x epsilon i t2 =
        (let x2 = num_sub (sampleCurveX s t2) x in
         if num_lt (num_abs x2) epsilon then Some t2
         else
           (let d2 = sampleCurveDerivativeX s t2 in
            if num_lt (num_abs d2) (lit (1 / 1000000)) then None
            else newton s x epsilon (i + 1) (num_sub t2 (num_div x2 d2))))"
  by (subst newton.simps) simp

lemma newton_stop: "\<not> i < 8 \<Longrightarrow> newton s x epsilon i t2 = None"
  by (subst newton.simps) simp

lemmas frame_eval = animationFrame_def frame_def frameStart_def writeOffsets_def frameEnd_def
  elapsedTimeRatio_def solve_def solveCurveX_def sampleCurveX_def sampleCurveY_def
  sampleCurveDerivativeX_def newton_step newton_stop

lemmas example_records = ease_def interrupted_def firstSample_def secondSample_def
  completed_def afterFirstRequest_def afterRequests_def afterFirstFrame_def afterFrames_def

lemma ease_solver: "CubicBezierSolver (Keyword ''ease'') = Inr ease"
  by (simp add: ease_def solver_eval num_eval)

lemma request_toBottom: "request toBottom fresh = Some (Awaiting 0, afterFirstRequest)"
  by (simp add: example_records scroller_eval example_defs solver_eval num_eval)

lemma request_toMiddle: "request toMiddle afterFirstRequest = Some (Awaiting 1, afterRequests)"
  by (simp add: example_records scroller_eval example_defs solver_eval num_eval)

lemma run_requests:
  "run (map Scroll [toBottom, toMiddle]) fresh = Some afterRequests"
  by (simp add: request_toBottom request_toMiddle)

lemma first_frame:
  "animationFrame 1 (Fin 100) afterRequests = Some (Fulfilled, afterFirstFrame)"
  by (simp add: example_records scroller_eval frame_eval example_defs solver_eval num_eval)

lemma second_frame:
  "animationFrame 2 (Fin 700) afterFirstFrame = Some (Fulfilled, afterFrames)"
  by (simp add: example_records scroller_eval frame_eval example_defs solver_eval num_eval)

lemma run_frames:
  "run (map (\<lambda>(i, t). AnimationFrame i (Fin t)) [(1, 100), (2, 700)]) afterRequests
     = Some afterFrames"
  using first_frame second_frame by simp

lemma solve_ease_end:
  "solve ease (Fin 1) (num_div (Fin 1) (num_mul (Fin 200) (Fin 600))) = Some (Inr (Fin 1))"
  by (simp add: ease_def frame_eval validateArgument_def num_eval Let_def)

lemma run_first_frame:
  "run (map (\<lambda>(i, t). AnimationFrame i (Fin t)) [(1, 100)]) afterRequests
     = Some afterFirstFrame"
  using first_frame by simp

lemma consistent_examples:
  "consistent fresh" "consistent afterRequests" "consistent afterFirstFrame"
  by (simp_all add: consistent_def example_records fresh_def SmoothScroller_def)

lemma ratio_first_frame: "elapsedTimeRatio (frameStart (Fin 100) afterRequests) = Fin 0"
  by (simp add: elapsedTimeRatio_frameStart afterRequests_def num_eval)

lemma ratio_second_frame: "elapsedTimeRatio (frameStart (Fin 700) afterFirstFrame) = Fin 1"
  by (simp add: elapsedTimeRatio_frameStart afterFirstFrame_def num_eval)

lemma solve_ease_start:
  "solve ease (Fin 0) (num_div (Fin 1) (num_mul (Fin 200) (Fin 600))) = Some (Inr (Fin 0))"
  by (simp add: ease_def frame_eval validateArgument_def num_eval Let_def)

lemma writes_examples:
  "writes (Fin 0) afterRequests = [SetScrollTop (Fin 0)]"
  "writes (Fin 1) afterFirstFrame = [SetScrollTop (Fin 500)]"
  by (simp_all add: writes_def example_records num_eval)

lemma sample_examples:
  "getScrollEventData None afterRequests = firstSample"
  "getScrollEventData None afterFirstFrame = secondSample"
  by (simp_all add: getScrollEventData_def example_records num_eval)

section \<open>The bisection that does not return\<close>

lemma bisection_unfold:
  assumes "bisection_next s x epsilon (t0, t1, t2) = Some (a, b, c)"
  shows "bisection s x epsilon t0 t1 t2 = bisection s x epsilon a b c"
  using assms
  by (subst bisection.simps) (auto simp: bisection_next_def Let_def split: if_splits)

lemma bisection_after_eq:
  assumes "bisection_after n s x epsilon (t0, t1, t2) = Some (a, b, c)"
  shows "bisection s x epsilon t0 t1 t2 = bisection s x epsilon a b c"
  using assms
proof (induction n arbitrary: t0 t1 t2)
  case 0
  then show ?case by simp
next
  case (Suc n)
  then obtain u0 u1 u2 where
    nx: "bisection_next s x epsilon (t0, t1, t2) = Some (u0, u1, u2)"
    and af: "bisection_after n s x epsilon (u0, u1, u2) = Some (a, b, c)"
    by (auto split: option.splits)
  from bisection_unfold [OF nx] Suc.IH [OF af] show ?case by simp
qed

text \<open>A round that leaves the state as it was is followed by the same round, for
  ever: the loop does not return.\<close>

lemma bisection_stuck:
  assumes "bisection_next s x epsilon (t0, t1, t2) = Some (t0, t1, t2)"
  shows "bisection s x epsilon t0 t1 t2 = None"
proof (rule ccontr)
  assume "bisection s x epsilon t0 t1 t2 \<noteq> None"
  then obtain r where r: "bisection s x epsilon t0 t1 t2 = Some r" by auto
  from assms have lt: "num_lt t0 t1"
    by (simp add: bisection_next_def split: if_splits)
  from assms lt have nohit: "\<not> num_lt (num_abs (num_sub (sampleCurveX s t2) x)) epsilon"
    by (simp add: bisection_next_def Let_def split: if_splits)
  from assms lt nohit
  have same: "(if num_gt x (sampleCurveX s t2) then (t2, t1, midpoint t2 t1)
                else (t0, t2, midpoint t0 t2)) = (t0, t1, t2)"
    by (auto simp: bisection_next_def Let_def split: if_splits)
  define P where
    "P = (\<lambda>s' x' e' a b c (r::num). (s', x', e', a, b, c) \<noteq> (s, x, epsilon, t0, t1, t2))"
  have "P s x epsilon t0 t1 t2 r"
  proof (rule bisection.raw_induct [where P = P and xa = "(((((s, x), epsilon), t0), t1), t2)"
        and y = r, unfolded prod.case])
    show "bisection s x epsilon t0 t1 t2 = Some r" by (rule r)
  next
    fix f s' x' e' a b c r'
    assume IH: "\<And>s x e a b c y. f s x e a b c = Some y \<Longrightarrow> P s x e a b c y"
      and body: "(if num_lt a b
      then let x2 = sampleCurveX s' c
           in if num_lt (num_abs (num_sub x2 x')) e' then Some c
              else if num_gt x' x2
                   then f s' x' e' c b (midpoint c b)
                   else f s' x' e' a c (midpoint a c)
      else Some c) = Some r'"
    show "P s' x' e' a b c r'"
    proof (cases "(s', x', e', a, b, c) = (s, x, epsilon, t0, t1, t2)")
      case False
      then show ?thesis by (simp add: P_def)
    next
      case True
      then have eqs: "s' = s" "x' = x" "e' = epsilon" "a = t0" "b = t1" "c = t2" by simp_all
      from body have "(if num_gt x (sampleCurveX s t2)
                   then f s x epsilon t2 t1 (midpoint t2 t1)
                   else f s x epsilon t0 t2 (midpoint t0 t2)) = Some r'"
        unfolding eqs using lt nohit by (simp add: Let_def)
      then have "f s x epsilon t0 t1 t2 = Some r'"
        using same by (cases "num_gt x (sampleCurveX s t2)") auto
      from IH [OF this] show ?thesis by (simp add: P_def)
    qed
  qed
  then show False by (simp add: P_def)
qed

lemma bisection_after_numeral:
  "bisection_after (numeral k) s x epsilon st =
     (case bisection_next s x epsilon st of
        None \<Rightarrow> None
      | Some st' \<Rightarrow> bisection_after (pred_numeral k) s x epsilon st')"
  by (simp add: numeral_eq_Suc)

subsection \<open>The solver of \<open>linear\<close> at 0.25 with the tolerance \<open>2\<^sup>-\<^sup>6\<^sup>0\<close>\<close>

lemma linear_solver: "CubicBezierSolver (Keyword ''linear'') = Inr linear"
  by (simp add: linear_def solver_eval num_eval Let_def)

lemma linear_points: "CubicBezierSolver (Points [Fin 0, Fin 0, Fin 1, Fin 1]) = Inr linear"
  by (simp add: linear_def solver_eval num_eval Let_def)

lemma half: "lit (1 / 2) = Fin (1 / 2)"
  by (simp add: lit_def round64_eval)

lemma millionth: "lit (1 / 1000000) = Fin (4722366482869645 / 4722366482869645213696)"
  by (simp add: lit_def round64_eval)

text \<open>Newton's method: eight rounds without meeting the tolerance.\<close>

lemma newton_linear: "newton linear (Fin (1 / 4)) tiny 0 (Fin (1 / 4)) = None"
  by (simp add: linear_def tiny_def newton_step newton_stop millionth sampleCurveX_def
      sampleCurveDerivativeX_def num_sub_def Let_def round64_eval)

text \<open>The bisection: 55 rounds lead to the state \<open>stuck\<close>, and one more round leads from
  \<open>stuck\<close> to \<open>stuck\<close>: the midpoint of \<open>t0\<close> and \<open>t1\<close> rounds to \<open>t1\<close>, where the curve is
  \<open>2\<^sup>-\<^sup>5\<^sup>4\<close> above 0.25.\<close>

lemma bisection_linear_55:
  "bisection_after 55 linear (Fin (1 / 4)) tiny (Fin 0, Fin 1, Fin (1 / 4)) = Some stuck"
  by (simp add: bisection_after_numeral bisection_next_def linear_def tiny_def stuck_def half
      midpoint_def sampleCurveX_def num_sub_def num_gt_def Let_def round64_eval)

lemma bisection_linear_stuck:
  "bisection_next linear (Fin (1 / 4)) tiny
     (Fin (5879031781803579 / 18014398509481984),
      Fin (1469757945450895 / 4503599627370496),
      Fin (1469757945450895 / 4503599627370496))
   = Some (Fin (5879031781803579 / 18014398509481984),
      Fin (1469757945450895 / 4503599627370496),
      Fin (1469757945450895 / 4503599627370496))"
  by (simp add: bisection_next_def linear_def tiny_def half midpoint_def sampleCurveX_def
      num_sub_def num_gt_def Let_def round64_eval)

lemma bisection_linear: "bisection linear (Fin (1 / 4)) tiny (Fin 0) (Fin 1) (Fin (1 / 4)) = None"
proof -
  note a = bisection_after_eq [OF bisection_linear_55 [unfolded stuck_def]]
  note b = bisection_stuck [OF bisection_linear_stuck]
  show ?thesis unfolding a by (rule b)
qed

lemma x_valid: "validateArgument ''x'' (Fin (1 / 4)) (Some (Fin 0)) (Some (Fin 1)) False = None"
  by (simp add: validateArgument_def)

section \<open>The claims\<close>

subsection \<open>C1: requests made in a row\<close>

text \<open>
  C1, as amended. Let N requests be made back to back on an instance with no scroll
  awaited (no animation frame and no pointer event comes between two of them, and no
  listener calls the scroller again during a dispatch), each with valid arguments, a
  duration above 0 and a distance of at least 1 on some axis. Then call number i
  returns the promise number i it has created, N promises in all; the promises resolved
  by the calls are the first N - 1, each once, in order, each with
  \<open>interruptedBy = "New smooth scroll"\<close>, and the last promise is the one awaited.
  Through any animation frames that follow, the last promise either is still awaited
  with nothing more resolved, or has been resolved once, with \<open>interruptedBy\<close> null, and
  nothing else. And it is resolved: once the start time is set (to a timestamp other
  than 0), the requested animation frame that finds the elapsed time at the duration or
  beyond, with the solver returning a value at 1, returns, leaves no promise awaited
  and no frame requested, and after it each of the N promises has been resolved
  exactly once.
  (The claim names the cause \<open>"new scroll request"\<close>; the source passes
  \<open>"New smooth scroll"\<close>.)
\<close>

theorem successive_requests_resolved_once:
  assumes "consistent s" and "scrollResolve s = None" and "successive as s" and "as \<noteq> []"
  shows "\<exists>s'. requests as s
         = Some (map (\<lambda>i. Awaiting (nextPromise s + i)) [0..<length as], s')
     \<and> nextPromise s' = nextPromise s + length as
     \<and> resolutions (effects s') = resolutions (effects s)
           @ map (\<lambda>i. (nextPromise s + i, Some ''New smooth scroll'')) [0..<length as - 1]
     \<and> scrollResolve s' = Some (nextPromise s + length as - 1)
     \<and> (\<forall>its s1.
           run (map (\<lambda>(i, t). AnimationFrame i (Fin t)) its) s' = Some s1
           \<longrightarrow> (scrollResolve s1 = Some (nextPromise s + length as - 1)
                \<and> resolutions (effects s1) = resolutions (effects s'))
             \<or> (scrollResolve s1 = None
                \<and> resolutions (effects s1) = resolutions (effects s')
                      @ [(nextPromise s + length as - 1, None)]))
     \<and> (\<forall>its s1 i t sv r.
           run (map (\<lambda>(i, t). AnimationFrame i (Fin t)) its) s' = Some s1
           \<and> scrollResolve s1 = Some (nextPromise s + length as - 1)
           \<and> i \<in> set (frames s1)
           \<and> truthy (scrollStartTime s1)
           \<and> num_ge (num_div (num_sub (Fin t) (scrollStartTime s1)) (scrollDuration s1)) (Fin 1)
           \<and> cubicBezierSolver s1 = Some sv
           \<and> solve sv (Fin 1) (num_div (Fin 1) (num_mul (Fin 200) (scrollDuration s1)))
               = Some (Inr r)
           \<longrightarrow> (\<exists>s2. animationFrame i (Fin t) s1 = Some (Fulfilled, s2)
                  \<and> scrollResolve s2 = None \<and> frames s2 = []
                  \<and> nextPromise s2 = nextPromise s + length as
                  \<and> resolutions (effects s2) = resolutions (effects s)
                        @ map (\<lambda>i. (nextPromise s + i, Some ''New smooth scroll''))
                            [0..<length as - 1]
                        @ [(nextPromise s + length as - 1, None)]))"
proof -
  define last where "last = nextPromise s + length as - 1"
  from successive_run [OF assms(1,3)] assms(2,4) obtain s' where
    run: "run (map Scroll as) s = Some s'" and c': "consistent s'"
    and np: "nextPromise s' = nextPromise s + length as"
    and res: "resolutions (effects s') = resolutions (effects s)
           @ map (\<lambda>i. (nextPromise s + i, Some ''New smooth scroll'')) [0..<length as - 1]"
    and sr: "scrollResolve s' = Some last"
    by (auto simp: last_def)
  from successive_requests [OF assms(1,3)] run
  have rq: "requests as s
         = Some (map (\<lambda>i. Awaiting (nextPromise s + i)) [0..<length as], s')"
    by auto
  have safe: "(scrollResolve s1 = Some last
                \<and> resolutions (effects s1) = resolutions (effects s'))
             \<or> (scrollResolve s1 = None
                \<and> resolutions (effects s1) = resolutions (effects s') @ [(last, None)])"
    if "run (map (\<lambda>(i, t). AnimationFrame i (Fin t)) its) s' = Some s1" for its s1
    using frames_run [OF that c' sr] .
  have live: "\<exists>s2. animationFrame i (Fin t) s1 = Some (Fulfilled, s2)
                  \<and> scrollResolve s2 = None \<and> frames s2 = []
                  \<and> nextPromise s2 = nextPromise s + length as
                  \<and> resolutions (effects s2) = resolutions (effects s)
                        @ map (\<lambda>i. (nextPromise s + i, Some ''New smooth scroll''))
                            [0..<length as - 1]
                        @ [(last, None)]"
    if r1: "run (map (\<lambda>(i, t). AnimationFrame i (Fin t)) its) s' = Some s1"
      and h: "scrollResolve s1 = Some last" and i: "i \<in> set (frames s1)"
      and st: "truthy (scrollStartTime s1)"
      and ge: "num_ge (num_div (num_sub (Fin t) (scrollStartTime s1)) (scrollDuration s1))
                 (Fin 1)"
      and sv: "cubicBezierSolver s1 = Some sv"
      and so: "solve sv (Fin 1) (num_div (Fin 1) (num_mul (Fin 200) (scrollDuration s1)))
               = Some (Inr r)"
    for its s1 i t sv r
  proof -
    from run_consistent' [OF r1 c'] have c1: "consistent s1" .
    from safe [OF r1] h have res1: "resolutions (effects s1) = resolutions (effects s')"
      by simp
    have np1: "nextPromise s1 = nextPromise s'"
      using r1 c'
    proof (induction its arbitrary: s')
      case Nil
      then show ?case by simp
    next
      case (Cons it its)
      obtain j u where it: "it = (j, u)" by (cases it)
      from Cons.prems(1) it obtain out s0 where
        f: "animationFrame j (Fin u) s' = Some (out, s0)"
        and r: "run (map (\<lambda>(i, t). AnimationFrame i (Fin t)) its) s0 = Some s1"
        by (auto split: option.splits)
      from animationFrame_step [OF f Cons.prems(2)]
      have "consistent s0" "nextPromise s0 = nextPromise s'" by simp_all
      with Cons.IH [OF r] show ?case by simp
    qed
    from animationFrame_completes [OF c1 i h st sv ge so] res1 res np np1
    show ?thesis by auto
  qed
  from rq np res sr safe live show ?thesis
    unfolding last_def by blast
qed

text \<open>The hypotheses hold of the two requests on a new instance. They return the
  promises 0 and 1 and resolve promise 0 with \<open>"New smooth scroll"\<close>; the frame at 100
  starts the second scroll, and the frame at 700, the duration being 600, resolves
  promise 1 with null.\<close>

theorem successive_requests_resolved_once_witness:
  "consistent fresh \<and> scrollResolve fresh = None \<and> successive [toBottom, toMiddle] fresh
   \<and> requests [toBottom, toMiddle] fresh = Some ([Awaiting 0, Awaiting 1], afterRequests)
   \<and> resolutions (effects afterRequests) = [(0, Some ''New smooth scroll'')]
   \<and> scrollResolve afterRequests = Some 1
   \<and> run (map (\<lambda>(i, t). AnimationFrame i (Fin t)) [(1, 100)]) afterRequests
        = Some afterFirstFrame
   \<and> scrollResolve afterFirstFrame = Some 1
   \<and> resolutions (effects afterFirstFrame) = [(0, Some ''New smooth scroll'')]
   \<and> 2 \<in> set (frames afterFirstFrame)
   \<and> truthy (scrollStartTime afterFirstFrame)
   \<and> num_ge (num_div (num_sub (Fin 700) (scrollStartTime afterFirstFrame))
               (scrollDuration afterFirstFrame)) (Fin 1)
   \<and> cubicBezierSolver afterFirstFrame = Some ease
   \<and> solve ease (Fin 1) (num_div (Fin 1) (num_mul (Fin 200) (scrollDuration afterFirstFrame)))
        = Some (Inr (Fin 1))
   \<and> (\<exists>s2. animationFrame 2 (Fin 700) afterFirstFrame = Some (Fulfilled, s2)
          \<and> scrollResolve s2 = None \<and> frames s2 = [] \<and> nextPromise s2 = 2
          \<and> resolutions (effects s2) = [(0, Some ''New smooth scroll''), (1, None)])"
proof -
  have h1: "consistent fresh" by (simp add: fresh_def SmoothScroller_consistent)
  have h2: "scrollResolve fresh = None" by (simp add: fresh_def SmoothScroller_def)
  have a1: "animating toBottom fresh"
    by (simp add: example_records scroller_eval example_defs solver_eval num_eval)
  have a2: "animating toMiddle afterFirstRequest"
    by (simp add: example_records scroller_eval example_defs solver_eval num_eval)
  have h3: "successive [toBottom, toMiddle] fresh"
    using a1 a2 by (simp add: request_toBottom request_toMiddle)
  have h4: "[toBottom, toMiddle] \<noteq> []" by simp
  have f: "nextPromise fresh = 0" "effects fresh = []"
    by (simp_all add: fresh_def SmoothScroller_def)
  have rq: "requests [toBottom, toMiddle] fresh = Some ([Awaiting 0, Awaiting 1], afterRequests)"
    by (simp add: request_toBottom request_toMiddle)
  have g: "scrollResolve afterFirstFrame = Some 1" "2 \<in> set (frames afterFirstFrame)"
    "truthy (scrollStartTime afterFirstFrame)" "cubicBezierSolver afterFirstFrame = Some ease"
    "scrollDuration afterFirstFrame = Fin 600" "scrollStartTime afterFirstFrame = Fin 100"
    by (simp_all add: afterFirstFrame_def truthy_def)
  have ge: "num_ge (num_div (num_sub (Fin 700) (scrollStartTime afterFirstFrame))
               (scrollDuration afterFirstFrame)) (Fin 1)"
    by (simp add: g num_eval)
  have so: "solve ease (Fin 1)
      (num_div (Fin 1) (num_mul (Fin 200) (scrollDuration afterFirstFrame))) = Some (Inr (Fin 1))"
    unfolding g by (rule solve_ease_end)
  define last :: nat where "last = nextPromise fresh + length [toBottom, toMiddle] - 1"
  define cause where "cause = map (\<lambda>i. (nextPromise fresh + i, Some ''New smooth scroll''))
    [0..<length [toBottom, toMiddle] - 1]"
  have l: "last = 1" "cause = [(0, Some ''New smooth scroll'')]"
    by (simp_all add: last_def cause_def f)
  from successive_requests_resolved_once [OF h1 h2 h3 h4, folded last_def cause_def]
  obtain s' where
    rq': "requests [toBottom, toMiddle] fresh
         = Some (map (\<lambda>i. Awaiting (nextPromise fresh + i)) [0..<length [toBottom, toMiddle]], s')"
    and res: "resolutions (effects s') = resolutions (effects fresh) @ cause"
    and sr: "scrollResolve s' = Some last"
    and safe: "\<forall>its s1.
           run (map (\<lambda>(i, t). AnimationFrame i (Fin t)) its) s' = Some s1
           \<longrightarrow> (scrollResolve s1 = Some last
                \<and> resolutions (effects s1) = resolutions (effects s'))
             \<or> (scrollResolve s1 = None
                \<and> resolutions (effects s1) = resolutions (effects s') @ [(last, None)])"
    and live: "\<forall>its s1 i t sv r.
           run (map (\<lambda>(i, t). AnimationFrame i (Fin t)) its) s' = Some s1
           \<and> scrollResolve s1 = Some last
           \<and> i \<in> set (frames s1)
           \<and> truthy (scrollStartTime s1)
           \<and> num_ge (num_div (num_sub (Fin t) (scrollStartTime s1)) (scrollDuration s1)) (Fin 1)
           \<and> cubicBezierSolver s1 = Some sv
           \<and> solve sv (Fin 1) (num_div (Fin 1) (num_mul (Fin 200) (scrollDuration s1)))
               = Some (Inr r)
           \<longrightarrow> (\<exists>s2. animationFrame i (Fin t) s1 = Some (Fulfilled, s2)
                  \<and> scrollResolve s2 = None \<and> frames s2 = []
                  \<and> nextPromise s2 = nextPromise fresh + length [toBottom, toMiddle]
                  \<and> resolutions (effects s2) = resolutions (effects fresh) @ cause
                        @ [(last, None)])"
    by blast
  from rq rq' have s': "s' = afterRequests" by simp
  from res have res0: "resolutions (effects afterRequests) = [(0, Some ''New smooth scroll'')]"
    by (simp add: s' l f)
  from sr have sr0: "scrollResolve afterRequests = Some 1" by (simp add: s' l)
  note r1 = run_first_frame [folded s']
  from safe [rule_format, OF r1] g(1) res0
  have res1: "resolutions (effects afterFirstFrame) = [(0, Some ''New smooth scroll'')]"
    by (simp add: s' l)
  have "run (map (\<lambda>(i, t). AnimationFrame i (Fin t)) [(1, 100)]) s' = Some afterFirstFrame
           \<and> scrollResolve afterFirstFrame = Some last
           \<and> 2 \<in> set (frames afterFirstFrame)
           \<and> truthy (scrollStartTime afterFirstFrame)
           \<and> num_ge (num_div (num_sub (Fin 700) (scrollStartTime afterFirstFrame))
                (scrollDuration afterFirstFrame)) (Fin 1)
           \<and> cubicBezierSolver afterFirstFrame = Some ease
           \<and> solve ease (Fin 1)
                (num_div (Fin 1) (num_mul (Fin 200) (scrollDuration afterFirstFrame)))
               = Some (Inr (Fin 1))"
    using r1 g(1) g(2) g(3) ge g(4) so unfolding l by blast
  from live [rule_format, OF this]
  have fin: "\<exists>s2. animationFrame 2 (Fin 700) afterFirstFrame = Some (Fulfilled, s2)
          \<and> scrollResolve s2 = None \<and> frames s2 = [] \<and> nextPromise s2 = 2
          \<and> resolutions (effects s2) = [(0, Some ''New smooth scroll''), (1, None)]"
    by (simp add: l f numeral_2_eq_2)
  from h1 h2 h3 rq res0 sr0 run_first_frame g(1) res1 g(2) g(3) ge g(4) so fin
  show ?thesis by blast
qed

text \<open>C1 as stated fails on the cause: the first of the two requests is resolved with
  \<open>"New smooth scroll"\<close>, not with \<open>"new scroll request"\<close>.\<close>

theorem interruption_cause_counterexample:
  "map_option (resolutions \<circ> effects) (run (map Scroll [toBottom, toMiddle]) fresh)
     = Some [(0, Some ''New smooth scroll'')]
   \<and> map_option (resolutions \<circ> effects) (run (map Scroll [toBottom, toMiddle]) fresh)
     \<noteq> Some [(0, Some ''new scroll request'')]"
  unfolding run_requests by (simp add: afterRequests_def interrupted_def)

subsection \<open>C2: the corrected target\<close>


lemma page_edges: "rightEdge page = Fin 0" "bottomEdge page = Fin 1000"
  by (simp_all add: rightEdge_def bottomEdge_def page_def num_eval)

lemma validated_fresh:
  "validated toBottom fresh = Inr (fresh\<lparr>cubicBezierSolver := Some ease\<rparr>)"
  by (simp add: example_records scroller_eval example_defs solver_eval num_eval)



subsection \<open>C3: a request for less than one unit\<close>

text \<open>
  C3, as amended. When a request with valid arguments asks for a distance of absolute
  value below 1 on both axes, the call returns a promise that is resolved during the
  call, after the interruption of the scroll awaited if there is one: it is resolved
  with \<open>interruptedBy\<close> null and with \<open>elapsedTime\<close> NaN (the value of the field while
  no scroll is awaited, not 0), the stop of the scroll is dispatched, no frame sample
  is, and afterwards no scroll is awaited and no animation frame is requested. (The
  state is one that the class produces: every state reached from a new instance is.)
\<close>

theorem noop_request_resolved_at_once:
  assumes "consistent s" and "validated a s = Inr s1"
    and "num_lt (num_abs (requestedDistanceX a s)) (Fin 1)"
    and "num_lt (num_abs (requestedDistanceY a s)) (Fin 1)"
  shows "\<exists>s' d. request a s = Some (Awaiting (nextPromise s), s')
     \<and> effects s' = effects s
         @ (case scrollResolve s of None \<Rightarrow> []
            | Some h \<Rightarrow> [Resolved h (getScrollEventData (Some ''New smooth scroll'') s),
                Dispatched ''smoothScrollerScrollStop''
                  (getScrollEventData (Some ''New smooth scroll'') s)])
         @ [Resolved (nextPromise s) d, Dispatched ''smoothScrollerScrollStop'' d]
     \<and> interruptedBy d = None \<and> elapsedTime d = NaN
     \<and> filter isFrameSample (effects s') = filter isFrameSample (effects s)
     \<and> scrollResolve s' = None \<and> frames s' = []"
proof -
  note s1 = validated_Inr [OF assms(2)]
  define a' where "a' = a\<lparr>arg_currentTime := None\<rparr>"
  have c1: "consistent s1" by (subst s1) (simp add: assms(1))
  have np: "nextPromise s1 = nextPromise s" by (subst s1) simp
  have sr: "scrollResolve s1 = scrollResolve s" by (subst s1) simp
  have ef: "effects s1 = effects s" by (subst s1) simp
  have ev: "getScrollEventData x s1 = getScrollEventData x s" for x
    by (subst s1) simp
  have rd: "requestedDistanceX a' s1 = requestedDistanceX a s"
    "requestedDistanceY a' s1 = requestedDistanceY a s"
    by (subst s1, simp add: a'_def)+
  from newScroll_noop [of a' s1] assms(3,4) c1 rd obtain s' d where
    n: "newScroll a' s1 = Inl (Awaiting (nextPromise s1), s')"
    and e: "effects s' = effects (interruptPrevious s1)
         @ [Resolved (nextPromise s1) d, Dispatched ''smoothScrollerScrollStop'' d]"
    and d: "interruptedBy d = None" "elapsedTime d = NaN"
    and r: "scrollResolve s' = None" and c': "consistent s'"
    by auto
  from r c' have fr: "frames s' = []" by (simp add: consistent_def)
  have "request a s = Some (Awaiting (nextPromise s), s')"
    using assms(2) n by (simp add: request_def scroll_def isNaN_def a'_def np)
  moreover have "effects s' = effects s
         @ (case scrollResolve s of None \<Rightarrow> []
            | Some h \<Rightarrow> [Resolved h (getScrollEventData (Some ''New smooth scroll'') s),
                Dispatched ''smoothScrollerScrollStop''
                  (getScrollEventData (Some ''New smooth scroll'') s)])
         @ [Resolved (nextPromise s) d, Dispatched ''smoothScrollerScrollStop'' d]"
    by (simp add: e ef sr ev np split: option.splits)
  moreover from this
  have "filter isFrameSample (effects s') = filter isFrameSample (effects s)"
    by (simp split: option.splits)
  ultimately show ?thesis using d r fr by blast
qed

text \<open>A request without arguments on a new instance asks for no distance at all.\<close>

lemma request_noArgs:
  "request noArgs fresh =
     Some (Awaiting 0, fresh\<lparr>cubicBezierSolver := Some ease,
       stopScrollingOnPointerDown := Some True, nextPromise := 1,
       effects := [Resolved 0 (firstSample\<lparr>duration := NaN\<rparr>),
         Dispatched ''smoothScrollerScrollStop'' (firstSample\<lparr>duration := NaN\<rparr>)]\<rparr>)"
  by (simp add: example_records scroller_eval example_defs solver_eval num_eval)

theorem noop_request_resolved_at_once_witness:
  "consistent fresh
   \<and> validated noArgs fresh = Inr (fresh\<lparr>cubicBezierSolver := Some ease\<rparr>)
   \<and> num_lt (num_abs (requestedDistanceX noArgs fresh)) (Fin 1)
   \<and> num_lt (num_abs (requestedDistanceY noArgs fresh)) (Fin 1)
   \<and> (\<exists>s' d. request noArgs fresh = Some (Awaiting 0, s')
        \<and> effects s' = [Resolved 0 d, Dispatched ''smoothScrollerScrollStop'' d]
        \<and> interruptedBy d = None \<and> elapsedTime d = NaN \<and> scrollResolve s' = None
        \<and> frames s' = [])"
proof -
  have h1: "consistent fresh" by (simp add: fresh_def SmoothScroller_consistent)
  have h2: "validated noArgs fresh = Inr (fresh\<lparr>cubicBezierSolver := Some ease\<rparr>)"
    by (simp add: example_records scroller_eval example_defs solver_eval num_eval)
  have h3: "num_lt (num_abs (requestedDistanceX noArgs fresh)) (Fin 1)"
    and h4: "num_lt (num_abs (requestedDistanceY noArgs fresh)) (Fin 1)"
    by (simp_all add: scroller_eval example_defs num_eval)
  have f: "nextPromise fresh = 0" "effects fresh = []" "scrollResolve fresh = None"
    by (simp_all add: fresh_def SmoothScroller_def)
  from noop_request_resolved_at_once [OF h1 h2 h3 h4]
  have "\<exists>s' d. request noArgs fresh = Some (Awaiting 0, s')
        \<and> effects s' = [Resolved 0 d, Dispatched ''smoothScrollerScrollStop'' d]
        \<and> interruptedBy d = None \<and> elapsedTime d = NaN \<and> scrollResolve s' = None
        \<and> frames s' = []"
    by (simp add: f) blast
  with h1 h2 h3 h4 show ?thesis by blast
qed

text \<open>C3 as stated fails on the elapsed time: the promise is resolved with NaN.\<close>

theorem noop_elapsedTime_counterexample:
  "map elapsedTime (resolvedWith 0 (effectsOf (request noArgs fresh))) = [NaN]
   \<and> map elapsedTime (resolvedWith 0 (effectsOf (request noArgs fresh))) \<noteq> [Fin 0]"
  unfolding request_noArgs by (simp add: effectsOf_def firstSample_def)

subsection \<open>C4: the return of \<open>solveCurveX\<close>\<close>

text \<open>
  C4. The claim does not hold of the code: for the solver of \<open>linear\<close>, \<open>x = 0.25\<close> and
  the tolerance \<open>2\<^sup>-\<^sup>6\<^sup>0\<close>, \<open>solveCurveX\<close> does not return. Newton's method leaves after
  its eight rounds, and the bisection reaches a bracket of two neighbouring binary64
  numbers whose midpoint rounds to the upper one: the tolerance is not met there, the
  bracket stays as it is, and \<open>t0 < t1\<close> holds for ever.
\<close>

theorem solveCurveX_does_not_return:
  "CubicBezierSolver (Keyword ''linear'') = Inr linear
   \<and> num_le (Fin 0) (Fin (1 / 4)) \<and> num_le (Fin (1 / 4)) (Fin 1) \<and> num_gt tiny (Fin 0)
   \<and> solveCurveX linear (Fin (1 / 4)) tiny = None"
proof -
  have "solveCurveX linear (Fin (1 / 4)) tiny = None"
    unfolding solveCurveX_def x_valid newton_linear bisection_linear by simp
  moreover have "num_gt tiny (Fin 0)" by (simp add: tiny_def num_gt_def)
  ultimately show ?thesis using linear_solver by simp
qed

subsection \<open>C5: the value of \<open>solve\<close> for \<open>linear\<close>\<close>


subsection \<open>C6: the start time\<close>

text \<open>While the start time is set to a number other than 0, an animation frame that
  leaves the scroll awaited keeps it and dispatches no start.\<close>

lemma start_time_kept:
  assumes "consistent s" and "i \<in> set (frames s)" and "scrollResolve s = Some h"
    and "cubicBezierSolver s = Some sv"
    and "solve sv (elapsedTimeRatio (frameStart (Fin t) s))
           (num_div (Fin 1) (num_mul (Fin 200) (scrollDuration s))) = Some (Inr r)"
    and "truthy (scrollStartTime s)"
    and "num_lt (elapsedTimeRatio (frameStart (Fin t) s)) (Fin 1)"
  shows "\<exists>s'. animationFrame i (Fin t) s = Some (Fulfilled, s')
    \<and> scrollStartTime s' = scrollStartTime s
    \<and> filter isScrollStart (effects s') = filter isScrollStart (effects s)"
  using animationFrame_tick [OF assms(1,2,4,5,3)] assms(6,7)
  by (auto simp: writes_def)

text \<open>
  C6. The claim does not hold of the code when the first animation frame of a scroll
  has the timestamp 0: the start time is tested by \<open>!this.#scrollStartTime\<close>, and 0 is
  falsy as the initial NaN is. After the request of the example and the frame at 0 the
  start time is 0 and one start has been dispatched; the frame at 16 sets the start
  time again, to 16, dispatches a second start, and the elapsed time is 0 again.
\<close>

theorem start_time_latched_again_after_zero:
  "map_option (\<lambda>s. (scrollStartTime s, scrollElapsedTime s,
                    length (filter isScrollStart (effects s)), scrollResolve s))
     (run [Scroll toBottom, AnimationFrame 0 (Fin 0)] fresh)
     = Some (Fin 0, Fin 0, 1, Some 0)
   \<and> map_option (\<lambda>s. (scrollStartTime s, scrollElapsedTime s,
                      length (filter isScrollStart (effects s)), scrollResolve s))
       (run [Scroll toBottom, AnimationFrame 0 (Fin 0), AnimationFrame 1 (Fin 16)] fresh)
     = Some (Fin 16, Fin 0, 2, Some 0)"
  by (simp add: request_toBottom)
     (simp add: example_records scroller_eval frame_eval example_defs solver_eval num_eval)

subsection \<open>C7: the order within an animation frame\<close>

text \<open>
  C7, as amended. Within an animation frame of a scroll that is awaited, the solver
  returning \<open>r\<close>, the order is report, compute, write, then request the next frame or
  stop: the start of the scroll is dispatched if the start time was not set, then the
  frame sample, then the offsets are written (each axis whose distance is truthy is
  set to its starting point plus \<open>r\<close> times its distance), then, when the ratio of
  elapsed time to duration is below 1, the next frame is requested, and otherwise the
  promise is resolved and the stop dispatched. The frame sample is dispatched before
  the write and carries the end point and the elapsed time that the instance held
  before the frame (NaN before the first frame of the scroll), not the offsets
  written in the frame; those are the end point held after the frame, which the frame
  sample of the next frame carries, or the stop.
\<close>

theorem frame_sample_precedes_writes:
  assumes "consistent s" and "i \<in> set (frames s)" and "scrollResolve s = Some h"
    and "cubicBezierSolver s = Some sv"
    and "solve sv (elapsedTimeRatio (frameStart (Fin t) s))
           (num_div (Fin 1) (num_mul (Fin 200) (scrollDuration s))) = Some (Inr r)"
  shows "\<exists>s' d. animationFrame i (Fin t) s = Some (Fulfilled, s')
    \<and> effects s' = effects s
        @ (if truthy (scrollStartTime s) then []
           else [Dispatched ''smoothScrollerScrollStart'' (getScrollEventData None s)])
        @ [Dispatched ''smoothScrollerScroll'' (getScrollEventData None s)]
        @ writes r s
        @ (if num_lt (elapsedTimeRatio (frameStart (Fin t) s)) (Fin 1) then []
           else [Resolved h d, Dispatched ''smoothScrollerScrollStop'' d])
    \<and> endPoint (getScrollEventData None s) = (scrollEndingPointX s, scrollEndingPointY s)
    \<and> elapsedTime (getScrollEventData None s) = scrollElapsedTime s
    \<and> scrollLeft (scrollContainer s') =
        (if truthy (scrollDistanceX s)
         then num_add (scrollStartingPointX s) (num_mul r (scrollDistanceX s))
         else scrollLeft (scrollContainer s))
    \<and> scrollTop (scrollContainer s') =
        (if truthy (scrollDistanceY s)
         then num_add (scrollStartingPointY s) (num_mul r (scrollDistanceY s))
         else scrollTop (scrollContainer s))
    \<and> endPoint d = (scrollLeft (scrollContainer s'), scrollTop (scrollContainer s'))
    \<and> elapsedTime d
        = num_sub (Fin t) (if truthy (scrollStartTime s) then scrollStartTime s else Fin t)
    \<and> (if num_lt (elapsedTimeRatio (frameStart (Fin t) s)) (Fin 1)
       then frames s' = [nextFrame s] \<and> scrollResolve s' = Some h
          \<and> scrollEndingPointX s' = scrollLeft (scrollContainer s')
          \<and> scrollEndingPointY s' = scrollTop (scrollContainer s')
          \<and> scrollElapsedTime s'
              = num_sub (Fin t) (if truthy (scrollStartTime s) then scrollStartTime s else Fin t)
       else frames s' = [] \<and> scrollResolve s' = None)"
proof -
  from animationFrame_tick [OF assms(1,2,4,5,3)] obtain s' d where
    "animationFrame i (Fin t) s = Some (Fulfilled, s')"
    "effects s' = effects s
        @ (if truthy (scrollStartTime s) then []
           else [Dispatched ''smoothScrollerScrollStart'' (getScrollEventData None s)])
        @ [Dispatched ''smoothScrollerScroll'' (getScrollEventData None s)]
        @ writes r s
        @ (if num_lt (elapsedTimeRatio (frameStart (Fin t) s)) (Fin 1) then []
           else [Resolved h d, Dispatched ''smoothScrollerScrollStop'' d])"
    "elapsedTime d
        = num_sub (Fin t) (if truthy (scrollStartTime s) then scrollStartTime s else Fin t)"
    "scrollResolve s' =
        (if num_lt (elapsedTimeRatio (frameStart (Fin t) s)) (Fin 1) then Some h else None)"
    "frames s' =
        (if num_lt (elapsedTimeRatio (frameStart (Fin t) s)) (Fin 1) then [nextFrame s] else [])"
    "endPoint d = (scrollLeft (scrollContainer s'), scrollTop (scrollContainer s'))"
    "scrollLeft (scrollContainer s') =
        (if truthy (scrollDistanceX s)
         then num_add (scrollStartingPointX s) (num_mul r (scrollDistanceX s))
         else scrollLeft (scrollContainer s))"
    "scrollTop (scrollContainer s') =
        (if truthy (scrollDistanceY s)
         then num_add (scrollStartingPointY s) (num_mul r (scrollDistanceY s))
         else scrollTop (scrollContainer s))"
    "num_lt (elapsedTimeRatio (frameStart (Fin t) s)) (Fin 1) \<longrightarrow>
         scrollEndingPointX s' = scrollLeft (scrollContainer s')
         \<and> scrollEndingPointY s' = scrollTop (scrollContainer s')
         \<and> scrollElapsedTime s'
             = num_sub (Fin t) (if truthy (scrollStartTime s) then scrollStartTime s else Fin t)"
    by blast
  then show ?thesis
    by (intro exI [of _ s'] exI [of _ d]) simp
qed

text \<open>The first frame of the example, at 100: the start and the frame sample, with
  the end point (NaN, NaN) and the elapsed time NaN, then \<open>scrollTop\<close> set to 0; the
  next frame is requested.\<close>

theorem frame_sample_precedes_writes_witness:
  "consistent afterRequests \<and> 1 \<in> set (frames afterRequests)
   \<and> scrollResolve afterRequests = Some 1 \<and> cubicBezierSolver afterRequests = Some ease
   \<and> solve ease (elapsedTimeRatio (frameStart (Fin 100) afterRequests))
        (num_div (Fin 1) (num_mul (Fin 200) (scrollDuration afterRequests)))
       = Some (Inr (Fin 0))
   \<and> (\<exists>s'. animationFrame 1 (Fin 100) afterRequests = Some (Fulfilled, s')
         \<and> effects s' = effects afterRequests
             @ [Dispatched ''smoothScrollerScrollStart'' firstSample,
                Dispatched ''smoothScrollerScroll'' firstSample, SetScrollTop (Fin 0)]
         \<and> endPoint firstSample = (NaN, NaN) \<and> elapsedTime firstSample = NaN
         \<and> frames s' = [2] \<and> scrollResolve s' = Some 1
         \<and> scrollEndingPointY s' = Fin 0 \<and> scrollElapsedTime s' = Fin 0)"
proof -
  have g: "1 \<in> set (frames afterRequests)" "scrollResolve afterRequests = Some 1"
    "cubicBezierSolver afterRequests = Some ease" "scrollDuration afterRequests = Fin 600"
    by (simp_all add: afterRequests_def)
  have so: "solve ease (elapsedTimeRatio (frameStart (Fin 100) afterRequests))
        (num_div (Fin 1) (num_mul (Fin 200) (scrollDuration afterRequests)))
       = Some (Inr (Fin 0))"
    unfolding ratio_first_frame g by (rule solve_ease_start)
  from frame_sample_precedes_writes [OF consistent_examples(2) g(1,2,3) so]
  have "\<exists>s'. animationFrame 1 (Fin 100) afterRequests = Some (Fulfilled, s')
         \<and> effects s' = effects afterRequests
             @ [Dispatched ''smoothScrollerScrollStart'' firstSample,
                Dispatched ''smoothScrollerScroll'' firstSample, SetScrollTop (Fin 0)]
         \<and> endPoint firstSample = (NaN, NaN) \<and> elapsedTime firstSample = NaN
         \<and> frames s' = [2] \<and> scrollResolve s' = Some 1
         \<and> scrollEndingPointY s' = Fin 0 \<and> scrollElapsedTime s' = Fin 0"
    unfolding ratio_first_frame sample_examples writes_examples
    apply (elim exE conjE)
    subgoal for s' d
      by (rule exI [of _ s']) (simp add: afterRequests_def firstSample_def truthy_def num_eval)
    done
  with consistent_examples(2) g(1,2,3) so show ?thesis by blast
qed

text \<open>C7 as stated fails on the second frame of the example, at 700: the frame sample
  comes before the write of \<open>scrollTop\<close> and carries the end point (0, 0), while the
  frame leaves the container at (0, 500).\<close>

theorem frame_sample_before_write_counterexample:
  "animationFrame 2 (Fin 700) afterFirstFrame = Some (Fulfilled, afterFrames)
   \<and> effects afterFrames = effects afterFirstFrame
        @ [Dispatched ''smoothScrollerScroll'' secondSample, SetScrollTop (Fin 500),
           Resolved 1 completed, Dispatched ''smoothScrollerScrollStop'' completed]
   \<and> endPoint secondSample = (Fin 0, Fin 0)
   \<and> (scrollLeft (scrollContainer afterFrames), scrollTop (scrollContainer afterFrames))
       = (Fin 0, Fin 500)
   \<and> endPoint secondSample
       \<noteq> (scrollLeft (scrollContainer afterFrames), scrollTop (scrollContainer afterFrames))"
  unfolding second_frame by (simp add: example_records page_def)

subsection \<open>C8: a request with invalid arguments\<close>

text \<open>
  C8, as amended. When the validation of the duration or of the easing of a request
  fails, the call returns a promise rejected with the error (the method is \<open>async\<close>:
  nothing is thrown to the caller, the error arrives through the promise returned), and
  the instance is left as it was: the scroll awaited, if any, stays awaited with its
  animation frame requested, no promise is created and none is resolved.
\<close>

theorem invalid_request_rejected_state_unchanged:
  assumes "validated a s = Inl err"
  shows "request a s = Some (Rejected err, s)"
  using assms by (simp add: request_def scroll_def isNaN_def)

lemma validated_negativeDuration:
  "validated negativeDuration s = Inl (ValidationError ''duration'')"
  by (simp add: validated_def argDuration_def negativeDuration_def noArgs_def
      validateArgument_def)

lemma validated_unknownKeyword:
  "validated unknownKeyword afterRequests = Inl (TypeError ''easing is not iterable'')"
  "validated unknownKeyword fresh = Inl (ValidationError ''controlPoints'')"
  by (simp_all add: example_records scroller_eval example_defs solver_eval num_eval)

lemma validated_badControlPoints:
  "validated badControlPoints afterRequests = Inl (ValidationError ''x1'')"
  by (simp add: example_records scroller_eval example_defs solver_eval num_eval)

text \<open>A duration of -1, the keyword \<open>"bounce"\<close> and the control points
  \<open>[2, 0, 1, 1]\<close>, each requested while the second scroll of the example is awaited
  (the instance has a solver then, and the call that compares the control points
  spreads the \<open>undefined\<close> that the lookup of the keyword gives).\<close>

theorem invalid_request_rejected_witness:
  "validated negativeDuration afterRequests = Inl (ValidationError ''duration'')
   \<and> request negativeDuration afterRequests
       = Some (Rejected (ValidationError ''duration''), afterRequests)
   \<and> validated unknownKeyword afterRequests = Inl (TypeError ''easing is not iterable'')
   \<and> request unknownKeyword afterRequests
       = Some (Rejected (TypeError ''easing is not iterable''), afterRequests)
   \<and> validated badControlPoints afterRequests = Inl (ValidationError ''x1'')
   \<and> request badControlPoints afterRequests
       = Some (Rejected (ValidationError ''x1''), afterRequests)
   \<and> scrollResolve afterRequests = Some 1 \<and> frames afterRequests = [1]"
  using invalid_request_rejected_state_unchanged [OF validated_negativeDuration [of afterRequests]]
    invalid_request_rejected_state_unchanged [OF validated_unknownKeyword(1)]
    invalid_request_rejected_state_unchanged [OF validated_badControlPoints]
    validated_negativeDuration [of afterRequests] validated_unknownKeyword(1)
    validated_badControlPoints
  by (simp add: afterRequests_def)

text \<open>C8 as stated fails on how the error arrives: the call returns, and the promise
  it returns is rejected with the error.\<close>

theorem invalid_request_not_thrown_counterexample:
  "request negativeDuration fresh = Some (Rejected (ValidationError ''duration''), fresh)
   \<and> request negativeDuration fresh \<noteq> Some (Thrown (ValidationError ''duration''), fresh)"
  by (simp add: request_def scroll_def isNaN_def validated_negativeDuration)

subsection \<open>C9: the axes written\<close>

text \<open>
  C9. Whatever an animation frame does, the distances of the scroll stay as they are
  while the scroll is awaited, \<open>scrollTo\<close> is not called, and an axis whose distance is
  0 is not written: no \<open>scrollLeft\<close> is set when the horizontal distance is 0, no
  \<open>scrollTop\<close> when the vertical distance is 0. And the axes with another distance are
  written: when the frame is the one requested and the solver returns \<open>r\<close>, the writes
  of the frame are, in this order, \<open>scrollLeft\<close> set to the starting point plus \<open>r\<close>
  times the distance if the horizontal distance is neither 0 nor NaN, and the same of
  \<open>scrollTop\<close> and the vertical distance.
\<close>

theorem zero_distance_axis_never_written:
  assumes "animationFrame i (Fin t) s = Some (out, s')"
  shows "\<exists>new. effects s' = effects s @ new
     \<and> (\<forall>u v. ScrollTo u v \<notin> set new)
     \<and> (scrollDistanceX s = Fin 0 \<longrightarrow> (\<forall>v. SetScrollLeft v \<notin> set new))
     \<and> (scrollDistanceY s = Fin 0 \<longrightarrow> (\<forall>v. SetScrollTop v \<notin> set new))
     \<and> (scrollResolve s' \<noteq> None \<longrightarrow>
           scrollDistanceX s' = scrollDistanceX s \<and> scrollDistanceY s' = scrollDistanceY s)
     \<and> (\<forall>h sv r. consistent s \<and> i \<in> set (frames s) \<and> scrollResolve s = Some h
           \<and> cubicBezierSolver s = Some sv
           \<and> solve sv (elapsedTimeRatio (frameStart (Fin t) s))
                (num_div (Fin 1) (num_mul (Fin 200) (scrollDuration s))) = Some (Inr r)
           \<longrightarrow> filter isWrite new =
                 (if truthy (scrollDistanceX s)
                  then [SetScrollLeft
                          (num_add (scrollStartingPointX s) (num_mul r (scrollDistanceX s)))]
                  else [])
                 @ (if truthy (scrollDistanceY s)
                    then [SetScrollTop
                            (num_add (scrollStartingPointY s) (num_mul r (scrollDistanceY s)))]
                    else []))"
proof -
  have main: "\<exists>new. effects s' = effects s @ new
     \<and> (\<forall>u v. ScrollTo u v \<notin> set new)
     \<and> (scrollDistanceX s = Fin 0 \<longrightarrow> (\<forall>v. SetScrollLeft v \<notin> set new))
     \<and> (scrollDistanceY s = Fin 0 \<longrightarrow> (\<forall>v. SetScrollTop v \<notin> set new))
     \<and> (scrollResolve s' \<noteq> None \<longrightarrow>
           scrollDistanceX s' = scrollDistanceX s \<and> scrollDistanceY s' = scrollDistanceY s)"
  proof (cases "i \<in> set (frames s)")
    case False
    with assms have "s' = s" by (simp add: animationFrame_def)
    then show ?thesis by simp
  next
    case True
    define s0 where "s0 = s\<lparr>frames := filter (\<lambda>j. j \<noteq> i) (frames s)\<rparr>"
    have s0: "effects s0 = effects s" "scrollDistanceX s0 = scrollDistanceX s"
      "scrollDistanceY s0 = scrollDistanceY s" "writes r s0 = writes r s" for r
      by (simp_all add: s0_def writes_def)
    from assms True have f: "frame (Fin t) s0 = Some (out, s')"
      by (simp add: animationFrame_def scroll_def argCurrentTime_def isNaN_def s0_def)
    from frame_effects [OF f] obtain tail where
      e: "effects s' = effects s0
        @ (if truthy (scrollStartTime s0) then []
           else [Dispatched ''smoothScrollerScrollStart'' (getScrollEventData None s0)])
        @ [Dispatched ''smoothScrollerScroll'' (getScrollEventData None s0)] @ tail"
      and t: "tail = [] \<or> (\<exists>r. tail = writes r s0
          \<or> (\<exists>h d. tail = writes r s0 @ [Resolved h d, Dispatched ''smoothScrollerScrollStop'' d]))"
      by blast
    from t have no: "(\<forall>u v. ScrollTo u v \<notin> set tail)
       \<and> (scrollDistanceX s = Fin 0 \<longrightarrow> (\<forall>v. SetScrollLeft v \<notin> set tail))
       \<and> (scrollDistanceY s = Fin 0 \<longrightarrow> (\<forall>v. SetScrollTop v \<notin> set tail))"
      by (auto simp: s0 writes_zero)
    define new where "new =
        (if truthy (scrollStartTime s0) then []
         else [Dispatched ''smoothScrollerScrollStart'' (getScrollEventData None s0)])
        @ [Dispatched ''smoothScrollerScroll'' (getScrollEventData None s0)] @ tail"
    have "effects s' = effects s @ new" using e by (simp add: new_def s0)
    moreover from no have "(\<forall>u v. ScrollTo u v \<notin> set new)
       \<and> (scrollDistanceX s = Fin 0 \<longrightarrow> (\<forall>v. SetScrollLeft v \<notin> set new))
       \<and> (scrollDistanceY s = Fin 0 \<longrightarrow> (\<forall>v. SetScrollTop v \<notin> set new))"
      by (simp add: new_def)
    moreover have "scrollResolve s' \<noteq> None \<longrightarrow>
           scrollDistanceX s' = scrollDistanceX s \<and> scrollDistanceY s' = scrollDistanceY s"
      using frame_distances [OF f] by (simp add: s0)
    ultimately show ?thesis by blast
  qed
  then obtain new where new: "effects s' = effects s @ new"
    and rest: "\<forall>u v. ScrollTo u v \<notin> set new"
      "scrollDistanceX s = Fin 0 \<longrightarrow> (\<forall>v. SetScrollLeft v \<notin> set new)"
      "scrollDistanceY s = Fin 0 \<longrightarrow> (\<forall>v. SetScrollTop v \<notin> set new)"
      "scrollResolve s' \<noteq> None \<longrightarrow>
           scrollDistanceX s' = scrollDistanceX s \<and> scrollDistanceY s' = scrollDistanceY s"
    by blast
  have pos: "filter isWrite new = writes r s"
    if "consistent s" "i \<in> set (frames s)" "scrollResolve s = Some h"
      "cubicBezierSolver s = Some sv"
      "solve sv (elapsedTimeRatio (frameStart (Fin t) s))
                (num_div (Fin 1) (num_mul (Fin 200) (scrollDuration s))) = Some (Inr r)"
    for h sv r
  proof -
    from animationFrame_tick [OF that(1,2,4,5,3)] assms obtain d where
      "effects s' = effects s
        @ (if truthy (scrollStartTime s) then []
           else [Dispatched ''smoothScrollerScrollStart'' (getScrollEventData None s)])
        @ [Dispatched ''smoothScrollerScroll'' (getScrollEventData None s)]
        @ writes r s
        @ (if num_lt (elapsedTimeRatio (frameStart (Fin t) s)) (Fin 1) then []
           else [Resolved h d, Dispatched ''smoothScrollerScrollStop'' d])"
      by auto
    with new have "new = (if truthy (scrollStartTime s) then []
           else [Dispatched ''smoothScrollerScrollStart'' (getScrollEventData None s)])
        @ [Dispatched ''smoothScrollerScroll'' (getScrollEventData None s)]
        @ writes r s
        @ (if num_lt (elapsedTimeRatio (frameStart (Fin t) s)) (Fin 1) then []
           else [Resolved h d, Dispatched ''smoothScrollerScrollStop'' d])"
      by simp
    then show ?thesis by simp
  qed
  from new rest pos show ?thesis
    unfolding writes_def by blast
qed

text \<open>The second frame of the example: the horizontal distance is 0, the vertical one
  500, and the frame sets \<open>scrollTop\<close> to 500 and nothing else.\<close>

theorem zero_distance_axis_never_written_witness:
  "animationFrame 2 (Fin 700) afterFirstFrame = Some (Fulfilled, afterFrames)
   \<and> scrollDistanceX afterFirstFrame = Fin 0 \<and> scrollDistanceY afterFirstFrame = Fin 500
   \<and> consistent afterFirstFrame \<and> 2 \<in> set (frames afterFirstFrame)
   \<and> scrollResolve afterFirstFrame = Some 1 \<and> cubicBezierSolver afterFirstFrame = Some ease
   \<and> solve ease (elapsedTimeRatio (frameStart (Fin 700) afterFirstFrame))
        (num_div (Fin 1) (num_mul (Fin 200) (scrollDuration afterFirstFrame)))
       = Some (Inr (Fin 1))
   \<and> (\<exists>new. effects afterFrames = effects afterFirstFrame @ new
         \<and> (\<forall>u v. ScrollTo u v \<notin> set new) \<and> (\<forall>v. SetScrollLeft v \<notin> set new)
         \<and> filter isWrite new = [SetScrollTop (Fin 500)])"
proof -
  have g: "scrollDistanceX afterFirstFrame = Fin 0" "scrollDistanceY afterFirstFrame = Fin 500"
    "2 \<in> set (frames afterFirstFrame)" "scrollResolve afterFirstFrame = Some 1"
    "cubicBezierSolver afterFirstFrame = Some ease" "scrollDuration afterFirstFrame = Fin 600"
    "scrollStartingPointY afterFirstFrame = Fin 0"
    by (simp_all add: afterFirstFrame_def)
  have so: "solve ease (elapsedTimeRatio (frameStart (Fin 700) afterFirstFrame))
        (num_div (Fin 1) (num_mul (Fin 200) (scrollDuration afterFirstFrame)))
       = Some (Inr (Fin 1))"
    unfolding ratio_second_frame g by (rule solve_ease_end)
  have w: "num_add (Fin 0) (num_mul (Fin 1) (Fin 500)) = Fin 500" by (simp add: num_eval)
  have tr: "\<not> truthy (Fin 0)" "truthy (Fin 500)" by (simp_all add: truthy_def)
  from zero_distance_axis_never_written [OF second_frame] obtain new where
    n: "effects afterFrames = effects afterFirstFrame @ new"
    and a: "\<forall>u v. ScrollTo u v \<notin> set new"
    and b: "scrollDistanceX afterFirstFrame = Fin 0 \<longrightarrow> (\<forall>v. SetScrollLeft v \<notin> set new)"
    and p: "\<forall>h sv r. consistent afterFirstFrame \<and> 2 \<in> set (frames afterFirstFrame)
           \<and> scrollResolve afterFirstFrame = Some h
           \<and> cubicBezierSolver afterFirstFrame = Some sv
           \<and> solve sv (elapsedTimeRatio (frameStart (Fin 700) afterFirstFrame))
                (num_div (Fin 1) (num_mul (Fin 200) (scrollDuration afterFirstFrame)))
               = Some (Inr r)
           \<longrightarrow> filter isWrite new =
                 (if truthy (scrollDistanceX afterFirstFrame)
                  then [SetScrollLeft (num_add (scrollStartingPointX afterFirstFrame)
                          (num_mul r (scrollDistanceX afterFirstFrame)))]
                  else [])
                 @ (if truthy (scrollDistanceY afterFirstFrame)
                    then [SetScrollTop (num_add (scrollStartingPointY afterFirstFrame)
                            (num_mul r (scrollDistanceY afterFirstFrame)))]
                    else [])"
    by blast
  have "consistent afterFirstFrame \<and> 2 \<in> set (frames afterFirstFrame)
           \<and> scrollResolve afterFirstFrame = Some 1
           \<and> cubicBezierSolver afterFirstFrame = Some ease
           \<and> solve ease (elapsedTimeRatio (frameStart (Fin 700) afterFirstFrame))
                (num_div (Fin 1) (num_mul (Fin 200) (scrollDuration afterFirstFrame)))
               = Some (Inr (Fin 1))"
    using consistent_examples(3) g(3,4,5) so by blast
  from p [rule_format, OF this]
  have "filter isWrite new = [SetScrollTop (Fin 500)]"
    by (simp only: g tr if_True if_False w append_Nil)
  with n a b g second_frame consistent_examples(3) so show ?thesis by blast
qed

subsection \<open>C10: the limit on the y coordinates\<close>

lemma yLimiter_large:
  "num_ge (num_abs y) (Fin 1501199875790165) \<Longrightarrow> yLimiter y = Fin 1501199875790165"
  by (cases y) (simp_all add: yLimiter_def limit_value num_ge_def num_le_def)

lemma yLimiter_small: "num_lt (num_abs y) (Fin 1501199875790165) \<Longrightarrow> yLimiter y = y"
  by (simp add: yLimiter_def limit_value)

lemma CubicBezierSolver_Points:
  "CubicBezierSolver (Points ps) = Inr s \<Longrightarrow>
     length ps = 4 \<and> p1x s = ps ! 0 \<and> p1y s = yLimiter (ps ! 1)
     \<and> p2x s = ps ! 2 \<and> p2y s = yLimiter (ps ! 3)
     \<and> cy s = num_mul (Fin 3) (p1y s)
     \<and> by' s = num_sub (num_mul (Fin 3) (num_sub (p2y s) (p1y s))) (cy s)"
  by (auto simp: CubicBezierSolver_def controlPointValidator_def coefficients_def Let_def
      split: if_splits option.splits sum.splits)

text \<open>
  C10. The constructor, given an array of control points that passes its checks,
  replaces a y coordinate of absolute value at least
  \<open>Math.floor(Number.MAX_SAFE_INTEGER / 6)\<close>, which is 1501199875790165, by that
  limit, whatever its sign, and keeps a y coordinate of absolute value below the limit
  as it is; the coefficients of the polynomial are computed from the coordinates so
  limited.
\<close>

theorem yLimiter_replaces_large_keeps_small:
  assumes "CubicBezierSolver (Points [x1, y1, x2, y2]) = Inr s"
  shows "num_floor (num_div MAX_SAFE_INTEGER (Fin 6)) = Fin 1501199875790165
    \<and> (num_ge (num_abs y1) (Fin 1501199875790165) \<longrightarrow> p1y s = Fin 1501199875790165)
    \<and> (num_lt (num_abs y1) (Fin 1501199875790165) \<longrightarrow> p1y s = y1)
    \<and> (num_ge (num_abs y2) (Fin 1501199875790165) \<longrightarrow> p2y s = Fin 1501199875790165)
    \<and> (num_lt (num_abs y2) (Fin 1501199875790165) \<longrightarrow> p2y s = y2)
    \<and> cy s = num_mul (Fin 3) (p1y s)
    \<and> by' s = num_sub (num_mul (Fin 3) (num_sub (p2y s) (p1y s))) (cy s)"
  using CubicBezierSolver_Points [OF assms]
  by (simp add: limit_value yLimiter_large yLimiter_small)

lemma steep_solver:
  "CubicBezierSolver (Points [Fin 0, Fin (- 2000000000000000), Fin 1, Fin 5]) =
     Inr (coefficients [Fin 0, Fin 1501199875790165, Fin 1, Fin 5])"
  by (simp add: CubicBezierSolver_def controlPointValidator_def validateArgument_def
      num_le_def yLimiter_def limit_value)

text \<open>A first y coordinate of \<open>-2\<cdot>10\<^sup>1\<^sup>5\<close> becomes the positive limit; a second of 5 stays.\<close>

theorem yLimiter_witness:
  "CubicBezierSolver (Points [Fin 0, Fin (- 2000000000000000), Fin 1, Fin 5]) =
      Inr (coefficients [Fin 0, Fin 1501199875790165, Fin 1, Fin 5])
   \<and> num_ge (num_abs (Fin (- 2000000000000000))) (Fin 1501199875790165)
   \<and> num_lt (num_abs (Fin 5)) (Fin 1501199875790165)
   \<and> p1y (coefficients [Fin 0, Fin 1501199875790165, Fin 1, Fin 5]) = Fin 1501199875790165
   \<and> p2y (coefficients [Fin 0, Fin 1501199875790165, Fin 1, Fin 5]) = Fin 5"
proof -
  have a: "num_ge (num_abs (Fin (- 2000000000000000))) (Fin 1501199875790165)"
    and b: "num_lt (num_abs (Fin 5)) (Fin 1501199875790165)"
    by (simp_all add: num_ge_def num_le_def)
  from yLimiter_replaces_large_keeps_small [OF steep_solver] a b steep_solver
  show ?thesis by blast
qed

end
